theory Spec2Isabelle
  imports Main
begin

section \<open>Values shared by the pages\<close>

text \<open>
  The client is a set of React pages over a REST backend and a Socket.IO channel.
  Each event handler of the source becomes a HOL function from the values its
  closure captured (the state of the render that created it) and the current world
  to the new world.  A world holds the React state cells together with everything
  the handler does to the outside: requests sent, router calls, toasts, timers.
  An \<open>await\<close> splits a handler in two functions: the part up to the request, and
  the part that runs when the request settles.

  JavaScript truthiness is written out: a missing value is \<open>None\<close>, and the empty
  string and the number zero are falsy as well.
\<close>

datatype role = Sender | Receiver

text \<open>\<open>x || d\<close> on an optional string: the default when \<open>x\<close> is missing or empty.\<close>

definition or_default :: "string option \<Rightarrow> string \<Rightarrow> string" where
  "or_default x d = (case x of None \<Rightarrow> d | Some s \<Rightarrow> if s = [] then d else s)"

text \<open>Truthiness of an optional number (\<open>undefined\<close>, \<open>null\<close> and \<open>0\<close> are falsy).\<close>

definition truthy_num :: "int option \<Rightarrow> bool" where
  "truthy_num x = (case x of None \<Rightarrow> False | Some n \<Rightarrow> n \<noteq> 0)"

text \<open>Truthiness of an optional string.\<close>

definition truthy_str :: "string option \<Rightarrow> bool" where
  "truthy_str x = (case x of None \<Rightarrow> False | Some s \<Rightarrow> s \<noteq> [])"

text \<open>\<open>x || null\<close> on an optional string.\<close>

definition or_null :: "string option \<Rightarrow> string option" where
  "or_null x = (if truthy_str x then x else None)"

text \<open>
  The pages a router call can name.  \<open>QuizAttempt n\<close> is \<open>/quiz/attempt/n\<close> and
  \<open>QuizResult a\<close> is \<open>/quiz/result/a\<close>, where \<open>a\<close> is the page's \<open>attemptId\<close>:
  the result of \<open>parseInt\<close>, \<open>None\<close> for \<open>NaN\<close>.
\<close>

datatype route = QuizAttempt int | QuizResult "int option" | Dashboard | Login

datatype nav = Push route | Replace route

datatype toast_kind = ToastSuccess | ToastError | ToastInfo | ToastWarning

text \<open>
  The user-facing texts of the source are Chinese string literals.  The model keeps an
  English rendering of each under a name of its own; the handlers only ever test
  them for emptiness, and none of them is empty.
\<close>

definition MSG_ATTEMPT_ENDED :: string where
  "MSG_ATTEMPT_ENDED = ''This attempt has already ended.''"

definition MSG_CANNOT_LOAD_ATTEMPT :: string where
  "MSG_CANNOT_LOAD_ATTEMPT = ''Cannot load the attempt data''"

definition MSG_NO_ACCESS :: string where
  "MSG_NO_ACCESS = ''Cannot load this attempt, or permission denied.''"

definition MSG_LOAD_ERROR :: string where
  "MSG_LOAD_ERROR = ''Error while loading the attempt, please go back and retry.''"

definition MSG_SUBMIT_API_FAILED :: string where
  "MSG_SUBMIT_API_FAILED = ''An error occurred while submitting the answers''"

definition MSG_SUBMIT_FAILED :: string where
  "MSG_SUBMIT_FAILED = ''An error occurred while submitting, please retry later.''"

definition MSG_START_API_FAILED :: string where
  "MSG_START_API_FAILED = ''Cannot start the attempt, please retry later''"

definition MSG_START_NO_ID :: string where
  "MSG_START_NO_ID = ''Starting failed, no attempt id returned.''"

definition MSG_START_FAILED :: string where
  "MSG_START_FAILED = ''Unknown error while starting, please retry.''"

definition MSG_ENTER_CODE :: string where
  "MSG_ENTER_CODE = ''Please enter a valid pairing code.''"

definition MSG_JOIN_API_FAILED :: string where
  "MSG_JOIN_API_FAILED = ''Pairing failed, check the pairing code or retry later''"

definition MSG_JOIN_NO_ID :: string where
  "MSG_JOIN_NO_ID = ''Pairing failed, no attempt id obtained''"

definition MSG_JOIN_FAILED :: string where
  "MSG_JOIN_FAILED = ''Joining the pairing failed, please retry.''"

definition MSG_PAIRING_FAILED :: string where
  "MSG_PAIRING_FAILED = ''Pairing failed, check the pairing code or retry later.''"

definition MSG_PAIRED_NO_EXAM :: string where
  "MSG_PAIRED_NO_EXAM = ''Paired, but the exam cannot start, please retry.''"

definition MSG_CANNOT_CONNECT :: string where
  "MSG_CANNOT_CONNECT = ''Cannot connect to the server: ''"

definition MSG_TYPE_ERROR :: string where
  "MSG_TYPE_ERROR = ''Cannot read properties of undefined''"


section \<open>The socket client and the socket context\<close>

text \<open>
  \<open>socket-client.ts\<close> keeps one module variable \<open>socket\<close>; the provider keeps the
  React state \<open>socketInstance\<close>.  Both are references to Socket objects, so the model
  has a store from addresses to objects and the two references are addresses in it.
  Of a Socket object the model keeps the \<open>connected\<close> flag and the events emitted on
  it, in order.  The payload of an event (\<open>...args: any[]\<close>) is a list of strings.
\<close>

record socket_obj =
  connected :: bool
  emitted :: "(string \<times> string list) list"

record socket_world =
  store :: "nat \<Rightarrow> socket_obj"
  socket :: "nat option"
  socketInstance :: "nat option"
  console :: "string list"

text \<open>\<open>getSocket\<close> returns the module variable.\<close>

definition getSocket :: "socket_world \<Rightarrow> nat option" where
  "getSocket w = socket w"

text \<open>
  \<open>emitSocketEvent\<close>: emits on the module's socket when there is one and it is
  connected, and logs to the console otherwise.
\<close>

definition emitSocketEvent :: "string \<Rightarrow> string list \<Rightarrow> socket_world \<Rightarrow> socket_world" where
  "emitSocketEvent event args w =
     (case getSocket w of
        Some a \<Rightarrow>
          if connected (store w a)
          then w\<lparr>store := (store w)(a := (store w a)\<lparr>emitted := emitted (store w a) @ [(event, args)]\<rparr>)\<rparr>
          else w\<lparr>console := console w @ [''Cannot emit event: Socket not connected or initialized.'']\<rparr>
      | None \<Rightarrow> w\<lparr>console := console w @ [''Cannot emit event: Socket not connected or initialized.'']\<rparr>)"

text \<open>
  The context's \<open>emit\<close>: tests \<open>socketInstance && socketInstance.connected\<close>, calls
  \<open>emitSocketEvent\<close> and returns \<open>true\<close>, or logs and returns \<open>false\<close>.
\<close>

definition emit :: "string \<Rightarrow> string list \<Rightarrow> socket_world \<Rightarrow> socket_world \<times> bool" where
  "emit event args w =
     (case socketInstance w of
        Some a \<Rightarrow>
          if connected (store w a)
          then (emitSocketEvent event args w, True)
          else (w\<lparr>console := console w @ [''Socket not connected or available. Cannot emit event'']\<rparr>, False)
      | None \<Rightarrow> (w\<lparr>console := console w @ [''Socket not connected or available. Cannot emit event'']\<rparr>, False))"

text \<open>All events emitted on the object at an address.\<close>

definition emitted_at :: "socket_world \<Rightarrow> nat \<Rightarrow> (string \<times> string list) list" where
  "emitted_at w a = emitted (store w a)"


section \<open>Strings: trim and toUpperCase\<close>

text \<open>
  The pairing code is whatever the user types, so it is a JavaScript string in full: a
  sequence of UTF-16 code units, here natural numbers.  \<open>units\<close> writes an ASCII literal
  as such a sequence.
\<close>

type_synonym js_string = "nat list"

definition units :: "string \<Rightarrow> js_string" where
  "units s = map of_char s"

text \<open>
  The code units that \<open>String.prototype.trim\<close> removes: the white space of the language
  (tab, vertical tab, form feed, the byte order mark U+FEFF and the space separators
  U+0020, U+00A0, U+1680, U+2000 to U+200A, U+202F, U+205F, U+3000) and its line
  terminators (line feed, carriage return, U+2028, U+2029).  All of them are single
  code units.
\<close>

definition isWhiteSpace :: "nat \<Rightarrow> bool" where
  "isWhiteSpace c =
     (c \<in> {9, 10, 11, 12, 13, 32, 160, 5760, 8232, 8233, 8239, 8287, 12288, 65279}
      \<or> (8192 \<le> c \<and> c \<le> 8202))"

definition trimStart :: "js_string \<Rightarrow> js_string" where
  "trimStart s = dropWhile isWhiteSpace s"

definition trimEnd :: "js_string \<Rightarrow> js_string" where
  "trimEnd s = rev (dropWhile isWhiteSpace (rev s))"

definition trim :: "js_string \<Rightarrow> js_string" where
  "trim s = trimEnd (trimStart s)"

text \<open>
  \<open>String.prototype.toUpperCase\<close> reads the string by code points (a high surrogate
  followed by a low one is one code point, any other code unit is one by itself),
  replaces every code point by its uppercase mapping and writes the result back in
  UTF-16.
\<close>

definition isHighSurrogate :: "nat \<Rightarrow> bool" where
  "isHighSurrogate c = (55296 \<le> c \<and> c \<le> 56319)"

definition isLowSurrogate :: "nat \<Rightarrow> bool" where
  "isLowSurrogate c = (56320 \<le> c \<and> c \<le> 57343)"

fun codePoints :: "js_string \<Rightarrow> nat list" where
  "codePoints [] = []"
| "codePoints [c] = [c]"
| "codePoints (hi # lo # rest) =
     (if isHighSurrogate hi \<and> isLowSurrogate lo
      then (65536 + (hi - 55296) * 1024 + (lo - 56320)) # codePoints rest
      else hi # codePoints (lo # rest))"

definition codeUnitsOf :: "nat \<Rightarrow> js_string" where
  "codeUnitsOf cp =
     (if cp < 65536 then [cp]
      else [55296 + (cp - 65536) div 1024, 56320 + (cp - 65536) mod 1024])"

text \<open>The uppercase mapping on ASCII: \<open>a\<close> to \<open>z\<close> onto \<open>A\<close> to \<open>Z\<close>, nothing else moves.\<close>

definition upperAscii :: "nat \<Rightarrow> nat" where
  "upperAscii cp = (if 97 \<le> cp \<and> cp \<le> 122 then cp - 32 else cp)"

text \<open>
  The uppercase mapping of a code point.  Beyond ASCII it is the table of the Unicode
  Character Database that the JavaScript engine carries (one code point may map to
  several, as U+00DF does); the table is no part of this program, so it is the
  parameter \<open>table\<close>.  A surrogate that stands alone is left as it is.
\<close>

definition upperMapping :: "(nat \<Rightarrow> nat list) \<Rightarrow> nat \<Rightarrow> nat list" where
  "upperMapping table cp =
     (if cp < 128 then [upperAscii cp]
      else if isHighSurrogate cp \<or> isLowSurrogate cp then [cp]
      else table cp)"

definition toUpperCase :: "(nat \<Rightarrow> nat list) \<Rightarrow> js_string \<Rightarrow> js_string" where
  "toUpperCase table s =
     concat (map (\<lambda>cp. concat (map codeUnitsOf (upperMapping table cp))) (codePoints s))"


section \<open>The REST client\<close>

text \<open>
  What axios hands back: the response body, or an error whose \<open>response\<close> (status
  code and body) may be missing.  A body is absent (\<open>None\<close>) or carries the optional
  fields the callers read.
\<close>

record error_body =
  body_message :: "string option"
  body_status :: "string option"

record http_response =
  http_status :: nat
  http_data :: "error_body option"

datatype 'a http = Http_ok 'a | Http_error "http_response option"

text \<open>A thrown \<open>Error\<close>: its \<open>message\<close>, and the \<open>status\<close> property when one was attached.\<close>

record js_error =
  err_message :: string
  err_status :: "string option"

text \<open>\<open>error.response?.data?.message\<close>.\<close>

definition response_message :: "http_response option \<Rightarrow> string option" where
  "response_message r =
     (case r of
        None \<Rightarrow> None
      | Some resp \<Rightarrow> (case http_data resp of None \<Rightarrow> None | Some d \<Rightarrow> body_message d))"

text \<open>The catch clause shared by the simple endpoints: \<open>throw new Error(message || fallback)\<close>.\<close>

definition api_result :: "string \<Rightarrow> 'a http \<Rightarrow> js_error + 'a" where
  "api_result fallback reply =
     (case reply of
        Http_ok d \<Rightarrow> Inr d
      | Http_error r \<Rightarrow>
          Inl \<lparr>err_message = or_default (response_message r) fallback, err_status = None\<rparr>)"

text \<open>The body of the start and join endpoints.\<close>

record attempt_response =
  resp_attemptId :: "int option"
  resp_pairingCode :: "string option"
  resp_message :: "string option"

text \<open>
  The requests the pages send.  \<open>PostStart\<close> is \<open>POST /attempts/start\<close> with
  \<open>templateId\<close> and, when given, \<open>role\<close>; \<open>PostJoinPairing\<close> is
  \<open>POST /attempts/join_pairing\<close> with \<open>pairingCode\<close> and \<open>templateId\<close>.  A template
  id is the result of \<open>parseInt\<close>, \<open>None\<close> for \<open>NaN\<close>.
\<close>

datatype api_request =
    PostStart "int option" "role option"
  | PostJoinPairing js_string "int option"

text \<open>\<open>attemptsAPI.startAttempt\<close>: the request, and the value or error of its promise.\<close>

definition startAttempt_request :: "int option \<Rightarrow> role option \<Rightarrow> api_request" where
  "startAttempt_request templateId r = PostStart templateId r"

definition startAttempt_result :: "'a http \<Rightarrow> js_error + 'a" where
  "startAttempt_result reply = api_result MSG_START_API_FAILED reply"

text \<open>\<open>attemptsAPI.joinPairing\<close>: the code is sent as it was passed.\<close>

definition joinPairing_request :: "js_string \<Rightarrow> int option \<Rightarrow> api_request" where
  "joinPairing_request pairingCode templateId = PostJoinPairing pairingCode templateId"

definition joinPairing_result :: "'a http \<Rightarrow> js_error + 'a" where
  "joinPairing_result reply = api_result MSG_JOIN_API_FAILED reply"


section \<open>The start page\<close>

datatype base_type = Intelligence | Communication

record ApiTemplateSummary =
  template_id :: int
  template_name :: string
  base_type :: base_type
  description :: "string option"
  time_limit_seconds :: int
  question_count :: int

datatype user = User (user_id: int) (username: string)

record StartPageState =
  templateInfo :: "ApiTemplateSummary option"
  isLoadingTemplate :: bool
  isStartingAttempt :: bool
  isJoiningPairing :: bool
  startError :: "string option"
  pairingError :: "string option"
  attemptId :: "int option"
  pairingCodeInput :: js_string
  pairingCodeDisplay :: "string option"
  role :: "role option"
  isPartnerConnected :: bool

text \<open>
  The values React compares to decide whether the effect that starts an attempt runs
  again: \<open>templateInfo\<close>, \<open>role\<close>, \<open>attemptId\<close>, \<open>isStartingAttempt\<close> and
  \<open>isLoadingTemplate\<close>; \<open>handleStartAttempt\<close> changes only when one of these does.
  (\<open>templateInfo\<close> is compared by value: of the operations modelled here none replaces
  it.)
\<close>

type_synonym autoStart_deps =
  "ApiTemplateSummary option \<times> role option \<times> int option \<times> bool \<times> bool"

text \<open>
  The world of the start page: the React state, the \<open>connectError\<close> that the socket
  context provides, the dependencies with which each of the two effects last ran, the
  requests sent so far, the router calls and the toasts (kind and, where the source
  passes one, the description).
\<close>

record start_world =
  state :: StartPageState
  socketConnectError :: "string option"
  autoStart_deps :: "autoStart_deps option"
  connectError_dep :: "string option option"
  requests :: "api_request list"
  navs :: "nav list"
  toasts :: "(toast_kind \<times> string option) list"

text \<open>
  What the handlers take from outside the state: the values of the hooks, and the
  uppercase table of the engine (see \<open>upperMapping\<close>).
\<close>

record start_props =
  props_user :: "user option"
  templateId :: "int option"
  unicodeUpper :: "nat \<Rightarrow> nat list"

definition initial_start_state :: StartPageState where
  "initial_start_state =
     \<lparr>templateInfo = None, isLoadingTemplate = True, isStartingAttempt = False,
      isJoiningPairing = False, startError = None, pairingError = None, attemptId = None,
      pairingCodeInput = [], pairingCodeDisplay = None, role = None,
      isPartnerConnected = False\<rparr>"

text \<open>
  \<open>handleStartAttempt\<close> up to its \<open>await\<close>.  \<open>sc\<close> is the state of the render that
  created the callback: the guards read \<open>sc\<close>, the updater of \<open>setState\<close> works on the
  current state.
\<close>

definition handleStartAttempt :: "start_props \<Rightarrow> StartPageState \<Rightarrow> start_world \<Rightarrow> start_world" where
  "handleStartAttempt p sc w =
     (case templateInfo sc of
        None \<Rightarrow> w
      | Some info \<Rightarrow>
          if props_user p = None \<or> templateId p = None \<or> isStartingAttempt sc then w
          else if base_type info = Communication \<and> StartPageState.role sc \<noteq> Some Sender then w
          else w\<lparr>state := (state w)\<lparr>isStartingAttempt := True, startError := None\<rparr>,
                 requests := requests w @ [startAttempt_request (templateId p) (StartPageState.role sc)]\<rparr>)"

text \<open>The catch clause of \<open>handleStartAttempt\<close>.\<close>

definition startAttempt_failed :: "string \<Rightarrow> start_world \<Rightarrow> start_world" where
  "startAttempt_failed msg w =
     w\<lparr>state := (state w)\<lparr>startError := Some (or_default (Some msg) MSG_START_FAILED),
                           isStartingAttempt := False\<rparr>\<rparr>"

text \<open>
  \<open>handleStartAttempt\<close> after its \<open>await\<close>.  A \<open>null\<close> body makes \<open>response.attemptId\<close>
  throw a TypeError, which the catch clause receives like any other error.
\<close>

definition handleStartAttempt_settled ::
  "StartPageState \<Rightarrow> attempt_response option http \<Rightarrow> start_world \<Rightarrow> start_world" where
  "handleStartAttempt_settled sc reply w =
     (case startAttempt_result reply of
        Inl err \<Rightarrow> startAttempt_failed (err_message err) w
      | Inr None \<Rightarrow> startAttempt_failed MSG_TYPE_ERROR w
      | Inr (Some response) \<Rightarrow>
          (case resp_attemptId response of
             None \<Rightarrow> startAttempt_failed (or_default (resp_message response) MSG_START_NO_ID) w
           | Some n \<Rightarrow>
               if n = 0
               then startAttempt_failed (or_default (resp_message response) MSG_START_NO_ID) w
               else
                 (let w1 = w\<lparr>state := (state w)\<lparr>StartPageState.attemptId := Some n,
                                  pairingCodeDisplay := or_null (resp_pairingCode response),
                                  isStartingAttempt := False\<rparr>\<rparr>
                  in if \<not> (StartPageState.role sc = Some Sender \<and> truthy_str (resp_pairingCode response))
                     then w1\<lparr>navs := navs w1 @ [Push (QuizAttempt n)]\<rparr>
                     else w1)))"

text \<open>The effect that starts an attempt by itself once template and role are known.\<close>

definition autoStartEffect :: "start_props \<Rightarrow> StartPageState \<Rightarrow> start_world \<Rightarrow> start_world" where
  "autoStartEffect p sc w =
     (case templateInfo sc of
        None \<Rightarrow> w
      | Some info \<Rightarrow>
          if StartPageState.role sc \<noteq> None \<and> \<not> truthy_num (StartPageState.attemptId sc)
             \<and> \<not> isStartingAttempt sc \<and> \<not> isLoadingTemplate sc
          then (if StartPageState.role sc = Some Sender \<or> base_type info = Intelligence
                then handleStartAttempt p sc w else w)
          else w)"

text \<open>
  The effect on \<open>socketConnectError\<close>: a connection error of the socket resets both
  in-flight flags.
\<close>

definition connectErrorEffect :: "string option \<Rightarrow> start_world \<Rightarrow> start_world" where
  "connectErrorEffect connectError w =
     (case connectError of
        None \<Rightarrow> w
      | Some e \<Rightarrow>
          if e = [] then w
          else w\<lparr>state := (state w)\<lparr>pairingError := Some (MSG_CANNOT_CONNECT @ e),
                                    isJoiningPairing := False,
                                    isStartingAttempt := False\<rparr>\<rparr>)"

text \<open>The dependencies of the starting effect in the current state.\<close>

definition current_autoStart_deps :: "start_world \<Rightarrow> autoStart_deps" where
  "current_autoStart_deps w =
     (templateInfo (state w), StartPageState.role (state w), StartPageState.attemptId (state w),
      isStartingAttempt (state w), isLoadingTemplate (state w))"

text \<open>
  A commit of the start page: React renders the current state and runs, in the order
  of their declaration, the starting effect and the effect on \<open>socketConnectError\<close>,
  each one only when its dependencies have changed since its last run.  Both close over
  the state that was rendered.
\<close>

definition start_commit :: "start_props \<Rightarrow> start_world \<Rightarrow> start_world" where
  "start_commit p w =
     (let sc = state w;
          w1 = (if autoStart_deps w = Some (current_autoStart_deps w) then w
                else autoStartEffect p sc (w\<lparr>autoStart_deps := Some (current_autoStart_deps w)\<rparr>));
          w2 = (if connectError_dep w = Some (socketConnectError w) then w1
                else connectErrorEffect (socketConnectError w)
                       (w1\<lparr>connectError_dep := Some (socketConnectError w)\<rparr>))
      in w2)"

text \<open>
  The events of a run of the start page that the properties below need: a commit, and
  a change of the \<open>connectError\<close> of the socket context.  No event settles a request,
  so every request sent in such a run is still pending at its end.
\<close>

datatype start_event = StartCommit | ConnectErrorChanged "string option"

fun start_step :: "start_props \<Rightarrow> start_world \<Rightarrow> start_event \<Rightarrow> start_world" where
  "start_step p w StartCommit = start_commit p w"
| "start_step p w (ConnectErrorChanged e) = w\<lparr>socketConnectError := e\<rparr>"

definition start_run :: "start_props \<Rightarrow> start_world \<Rightarrow> start_event list \<Rightarrow> start_world" where
  "start_run p w evs = foldl (start_step p) w evs"

text \<open>The catch clause of \<open>handleJoinPairing\<close>.\<close>

definition joinPairing_failed :: "string \<Rightarrow> start_world \<Rightarrow> start_world" where
  "joinPairing_failed msg w =
     (let errorMsg = or_default (Some msg) MSG_JOIN_FAILED
      in w\<lparr>state := (state w)\<lparr>pairingError := Some errorMsg, isJoiningPairing := False\<rparr>,
           toasts := toasts w @ [(ToastError, Some errorMsg)]\<rparr>)"

text \<open>\<open>handleJoinPairing\<close> up to its \<open>await\<close>.\<close>

definition handleJoinPairing :: "start_props \<Rightarrow> StartPageState \<Rightarrow> start_world \<Rightarrow> start_world" where
  "handleJoinPairing p sc w =
     (if trim (pairingCodeInput sc) = []
      then w\<lparr>state := (state w)\<lparr>pairingError := Some MSG_ENTER_CODE\<rparr>\<rparr>
      else w\<lparr>state := (state w)\<lparr>isJoiningPairing := True, pairingError := None\<rparr>,
             toasts := toasts w @ [(ToastInfo, None)],
             requests := requests w @
               [joinPairing_request (toUpperCase (unicodeUpper p) (trim (pairingCodeInput sc)))
                  (templateId p)]\<rparr>)"

text \<open>\<open>handleJoinPairing\<close> after its \<open>await\<close>: a body with an attempt id sends the
  joiner to the attempt page.\<close>

definition handleJoinPairing_settled ::
  "attempt_response option http \<Rightarrow> start_world \<Rightarrow> start_world" where
  "handleJoinPairing_settled reply w =
     (case joinPairing_result reply of
        Inl err \<Rightarrow> joinPairing_failed (err_message err) w
      | Inr None \<Rightarrow> joinPairing_failed MSG_TYPE_ERROR w
      | Inr (Some response) \<Rightarrow>
          (case resp_attemptId response of
             None \<Rightarrow> joinPairing_failed (or_default (resp_message response) MSG_JOIN_NO_ID) w
           | Some n \<Rightarrow>
               if n = 0
               then joinPairing_failed (or_default (resp_message response) MSG_JOIN_NO_ID) w
               else w\<lparr>toasts := toasts w @ [(ToastSuccess, None)],
                      navs := navs w @ [Push (QuizAttempt n)]\<rparr>))"

text \<open>
  The realtime events of the joiner, each with the field its listener reads from the
  payload (the payload object itself is taken to be present).  The effect registers the
  three listeners only when there is a connected socket, the role is the receiver and
  \<open>isJoiningPairing\<close> holds in the render the effect belongs to.
\<close>

datatype realtime_event =
    Pairing_success "string option"
  | Pairing_failed "string option"
  | Start_exam "int option"

definition receiverListening :: "bool \<Rightarrow> bool \<Rightarrow> StartPageState \<Rightarrow> bool" where
  "receiverListening hasSocket isConnected sc =
     (hasSocket \<and> isConnected \<and> StartPageState.role sc = Some Receiver \<and> isJoiningPairing sc)"

text \<open>The else branch of the \<open>start_exam\<close> listener: the payload has no (truthy) attempt id.\<close>

definition start_exam_without_id :: "start_world \<Rightarrow> start_world" where
  "start_exam_without_id w =
     w\<lparr>state := (state w)\<lparr>pairingError := Some MSG_PAIRED_NO_EXAM, isJoiningPairing := False\<rparr>,
       toasts := toasts w @ [(ToastError, Some MSG_PAIRED_NO_EXAM)]\<rparr>"

text \<open>The three listeners.\<close>

fun receiver_listener :: "realtime_event \<Rightarrow> start_world \<Rightarrow> start_world" where
  "receiver_listener (Pairing_success senderUsername) w =
     w\<lparr>toasts := toasts w @ [(ToastSuccess, Some (or_default senderUsername ''sender''))]\<rparr>"
| "receiver_listener (Pairing_failed message) w =
     (let errorMsg = or_default message MSG_PAIRING_FAILED
      in w\<lparr>state := (state w)\<lparr>pairingError := Some errorMsg, isJoiningPairing := False\<rparr>,
           toasts := toasts w @ [(ToastError, Some errorMsg)]\<rparr>)"
| "receiver_listener (Start_exam None) w = start_exam_without_id w"
| "receiver_listener (Start_exam (Some n)) w =
     (if n = 0 then start_exam_without_id w
      else w\<lparr>toasts := toasts w @ [(ToastSuccess, None)],
             navs := navs w @ [Push (QuizAttempt n)]\<rparr>)"

text \<open>An event arriving on the socket: it reaches a listener only when one is registered.\<close>

definition receive_event ::
  "bool \<Rightarrow> bool \<Rightarrow> StartPageState \<Rightarrow> realtime_event \<Rightarrow> start_world \<Rightarrow> start_world" where
  "receive_event hasSocket isConnected sc ev w =
     (if receiverListening hasSocket isConnected sc then receiver_listener ev w else w)"

text \<open>What the joiner's form shows: the input and the button.\<close>

definition codeInputDisabled :: "StartPageState \<Rightarrow> bool" where
  "codeInputDisabled st = isJoiningPairing st"

definition joinButtonDisabled :: "bool \<Rightarrow> StartPageState \<Rightarrow> bool" where
  "joinButtonDisabled isConnected st =
     (isJoiningPairing st \<or> trim (pairingCodeInput st) = [] \<or> \<not> isConnected)"

definition joinButtonSpinner :: "StartPageState \<Rightarrow> bool" where
  "joinButtonSpinner st = isJoiningPairing st"


section \<open>The attempt page\<close>

subsection \<open>Data\<close>

datatype question_type = Coordinate | Elevation | CommunicationQuestion

text \<open>Of a question the page's logic reads the slot order only; the rest is displayed.\<close>

record AttemptQuestion =
  slot_order :: int
  question_id :: int
  question_type :: question_type
  content :: string

text \<open>One entry of \<open>AnswerState\<close>; each of the three fields may be \<open>undefined\<close>.\<close>

record answer_entry =
  answerText :: "string option"
  answerCoordX :: "string option"
  answerCoordY :: "string option"

datatype answer_field = AnswerText | AnswerCoordX | AnswerCoordY

text \<open>
  \<open>AnswerState\<close> is a JavaScript object keyed by slot order.  The model keeps its
  properties in the order \<open>Object.entries\<close> lists them: integer keys from \<open>0\<close> to
  \<open>2^32 - 2\<close> ascending first, then every other key in the order of creation.
\<close>

type_synonym AnswerState = "(int \<times> answer_entry) list"

definition isArrayIndex :: "int \<Rightarrow> bool" where
  "isArrayIndex k = (0 \<le> k \<and> k < 4294967295)"

text \<open>\<open>obj[k] = v\<close>: an existing property keeps its place, a new one is put in order.\<close>

fun obj_set :: "int \<Rightarrow> 'v \<Rightarrow> (int \<times> 'v) list \<Rightarrow> (int \<times> 'v) list" where
  "obj_set k v [] = [(k, v)]"
| "obj_set k v ((k', v') # rest) =
     (if k = k' then (k, v) # rest
      else if isArrayIndex k \<and> (\<not> isArrayIndex k' \<or> k < k') \<and> k \<notin> fst ` set rest
        then (k, v) # (k', v') # rest
      else (k', v') # obj_set k v rest)"

text \<open>\<open>obj[k]\<close>.\<close>

definition obj_get :: "(int \<times> 'v) list \<Rightarrow> int \<Rightarrow> 'v option" where
  "obj_get obj k = map_of obj k"

text \<open>The entry the page stores for every question when the attempt is loaded.\<close>

definition blank_entry :: answer_entry where
  "blank_entry = \<lparr>answerText = Some [], answerCoordX = Some [], answerCoordY = Some []\<rparr>"

text \<open>\<open>{}\<close> as an entry: the spread of an \<open>undefined\<close> entry.\<close>

definition no_entry :: answer_entry where
  "no_entry = \<lparr>answerText = None, answerCoordX = None, answerCoordY = None\<rparr>"

text \<open>The loop that builds \<open>initialAnswers\<close>.\<close>

definition initialAnswers :: "AttemptQuestion list \<Rightarrow> AnswerState" where
  "initialAnswers qs = foldl (\<lambda>acc q. obj_set (slot_order q) blank_entry acc) [] qs"

text \<open>One element of the array sent to the submit endpoint.\<close>

record formatted_answer = answer_entry +
  slotOrder :: int

definition formatAnswers :: "AnswerState \<Rightarrow> formatted_answer list" where
  "formatAnswers answers =
     map (\<lambda>(slot, answerData).
            \<lparr>answerText = answerText answerData, answerCoordX = answerCoordX answerData,
             answerCoordY = answerCoordY answerData, slotOrder = slot\<rparr>) answers"

text \<open>
  A \<open>Date\<close> object: its identity and the instant it holds in milliseconds.  The
  identity matters where React compares the dependencies of an effect.
\<close>

record date =
  date_ref :: nat
  getTime :: int

text \<open>The name shown for the template: the server's, or the literal built from the id.\<close>

datatype template_label = Label string | DefaultLabel "int option"

record AttemptPageState =
  attemptId :: "int option"
  role :: "role option"
  pairingCode :: "string option"
  templateName :: template_label
  questions :: "AttemptQuestion list"
  startTime :: "date option"
  timeLimitSeconds :: int
  status :: string
  isLoading :: bool
  error :: "string option"
  isSubmitting :: bool
  isPartnerConnected :: bool

text \<open>
  The body of \<open>GET /attempts/{id}/active\<close>.  \<open>data_startTime\<close> is the instant that the
  server's time string denotes once the page has appended \<open>Z\<close> to it and parsed it;
  \<open>None\<close> stands for a missing or empty string.  Numbers are integers and the time
  string is one that \<open>Date\<close> can parse.
\<close>

record attempt_data =
  data_userId :: "int option"
  data_status :: "string option"
  data_questions :: "AttemptQuestion list option"
  data_role :: "role option"
  data_pairingCode :: "string option"
  data_templateName :: "string option"
  data_startTime :: "int option"
  data_timeLimit :: "int option"

text \<open>
  The consts of one render that the callbacks of that render close over.
\<close>

record closure =
  c_pageState :: AttemptPageState
  c_answers :: AnswerState
  c_currentQuestionIndex :: nat

text \<open>A pending \<open>setTimeout\<close>: the automatic submit (with the \<open>handleSubmit\<close> it closed
  over) or the delayed redirect of the sender.\<close>

datatype timeout = AutoSubmit closure | ResultRedirect

datatype attempt_call =
    GetActiveAttempt int
  | SubmitAttempt "int option" "formatted_answer list"

text \<open>
  The identities React compares to decide whether the timer effect runs again:
  \<open>startTime\<close>, \<open>timeLimitSeconds\<close>, \<open>status\<close>, \<open>role\<close> and \<open>handleSubmit\<close>, the last one
  by the dependencies of its \<open>useCallback\<close> (the answers object, \<open>isSubmitting\<close>, \<open>role\<close>;
  \<open>attemptId\<close> and the router never change).
\<close>

type_synonym timer_deps = "nat option \<times> int \<times> string \<times> role option \<times> (nat \<times> bool \<times> role option)"

text \<open>
  The world of the attempt page.  First the values of the hooks, then the React state
  (\<open>answers_ref\<close> is the identity of the current answers object), then what the last
  commit left behind: the closure of the rendered callbacks, the dependencies of the
  last run of the timer effect, the live interval with the role and the \<open>handleSubmit\<close>
  its callback closed over, whether the \<open>exam_completed\<close> listener is registered, and
  the pending timeouts.  Last, what the page did to the outside.
\<close>

record attempt_world =
  page_attemptId :: "int option"
  page_user :: "user option"
  isAuthLoading :: bool
  hasSocket :: bool
  isConnected :: bool
  currentQuestionIndex :: nat
  answers :: AnswerState
  answers_ref :: nat
  timeLeft :: "int option"
  pageState :: AttemptPageState
  fresh :: nat
  rendered :: closure
  effect_deps :: "timer_deps option"
  interval :: "(role option \<times> closure) option"
  listening :: bool
  timeouts :: "timeout list"
  calls :: "attempt_call list"
  routed :: "nav list"
  toasted :: "(toast_kind \<times> string option) list"

definition initial_pageState :: "int option \<Rightarrow> AttemptPageState" where
  "initial_pageState a =
     \<lparr>attemptId = a, role = None, pairingCode = None, templateName = Label [], questions = [],
      startTime = None, timeLimitSeconds = 0, status = ''loading'', isLoading = True,
      error = None, isSubmitting = False, isPartnerConnected = False\<rparr>"

text \<open>
  The page as it is mounted, with the authentication resolved and the socket connected:
  the initial values of every \<open>useState\<close>, nothing run yet.
\<close>

definition initial_attempt_world :: "int option \<Rightarrow> user option \<Rightarrow> attempt_world" where
  "initial_attempt_world a u =
     \<lparr>page_attemptId = a, page_user = u, isAuthLoading = False, hasSocket = True,
      isConnected = True, currentQuestionIndex = 0, answers = [], answers_ref = 0,
      timeLeft = None, pageState = initial_pageState a, fresh = 1,
      rendered = \<lparr>c_pageState = initial_pageState a, c_answers = [], c_currentQuestionIndex = 0\<rparr>,
      effect_deps = None, interval = None, listening = False, timeouts = [], calls = [],
      routed = [], toasted = []\<rparr>"


subsection \<open>Loading the attempt\<close>

text \<open>
  \<open>attemptsAPI.getActiveAttemptDetails\<close>: on a 409 the error carries the body's
  \<open>status\<close>; reading the body of a 409 without one throws a TypeError instead.
\<close>

definition getActiveAttemptDetails_result :: "'a http \<Rightarrow> js_error + 'a" where
  "getActiveAttemptDetails_result reply =
     (case reply of
        Http_ok d \<Rightarrow> Inr d
      | Http_error None \<Rightarrow> Inl \<lparr>err_message = MSG_CANNOT_LOAD_ATTEMPT, err_status = None\<rparr>
      | Http_error (Some resp) \<Rightarrow>
          if http_status resp = 409
          then (case http_data resp of
                  None \<Rightarrow> Inl \<lparr>err_message = MSG_TYPE_ERROR, err_status = None\<rparr>
                | Some errorData \<Rightarrow>
                    Inl \<lparr>err_message = or_default (body_message errorData) MSG_ATTEMPT_ENDED,
                         err_status = body_status errorData\<rparr>)
          else Inl \<lparr>err_message = or_default (response_message (Some resp)) MSG_CANNOT_LOAD_ATTEMPT,
                    err_status = None\<rparr>)"

text \<open>The test for a finished attempt, on the body's status and on the error's.\<close>

definition isFinished :: "string option \<Rightarrow> bool" where
  "isFinished st = (st = Some ''completed'' \<or> st = Some ''timed_out'')"

text \<open>\<open>fetchAttemptDetails\<close> up to its \<open>await\<close>.\<close>

definition fetchAttemptDetails :: "attempt_world \<Rightarrow> attempt_world" where
  "fetchAttemptDetails w =
     (case (page_attemptId w, page_user w) of
        (Some a, Some u) \<Rightarrow>
          w\<lparr>pageState := (pageState w)\<lparr>isLoading := True, error := None\<rparr>,
            calls := calls w @ [GetActiveAttempt a]\<rparr>
      | _ \<Rightarrow> w)"

text \<open>The catch clause of \<open>fetchAttemptDetails\<close>.\<close>

definition fetch_catch :: "js_error \<Rightarrow> attempt_world \<Rightarrow> attempt_world" where
  "fetch_catch err w =
     (if isFinished (err_status err)
      then w\<lparr>routed := routed w @ [Replace (QuizResult (page_attemptId w))]\<rparr>
      else w\<lparr>pageState := (pageState w)\<lparr>error := Some (or_default (Some (err_message err)) MSG_LOAD_ERROR),
                                         isLoading := False\<rparr>\<rparr>)"

text \<open>The part of the try block that installs a running attempt.\<close>

definition install_attempt :: "attempt_data \<Rightarrow> attempt_world \<Rightarrow> attempt_world" where
  "install_attempt attemptData w =
     w\<lparr>answers := initialAnswers (case data_questions attemptData of None \<Rightarrow> [] | Some qs \<Rightarrow> qs),
       answers_ref := fresh w,
       fresh := fresh w + 2,
       pageState := (pageState w)
         \<lparr>role := data_role attemptData,
          pairingCode := or_null (data_pairingCode attemptData),
          templateName := (case data_templateName attemptData of
                             None \<Rightarrow> DefaultLabel (page_attemptId w)
                           | Some name \<Rightarrow>
                               if name = [] then DefaultLabel (page_attemptId w) else Label name),
          questions := (case data_questions attemptData of None \<Rightarrow> [] | Some qs \<Rightarrow> qs),
          startTime := (case data_startTime attemptData of
                          None \<Rightarrow> None
                        | Some t \<Rightarrow> Some \<lparr>date_ref = fresh w + 1, getTime = t\<rparr>),
          timeLimitSeconds := (case data_timeLimit attemptData of None \<Rightarrow> 0 | Some l \<Rightarrow> l),
          status := or_default (data_status attemptData) ''unknown'',
          isLoading := False\<rparr>\<rparr>"

text \<open>
  \<open>fetchAttemptDetails\<close> after its \<open>await\<close>; \<open>u\<close> is the user the callback closed over.
  The ownership test comes first, then the test for a finished attempt.
\<close>

definition fetchAttemptDetails_settled ::
  "user \<Rightarrow> attempt_data option http \<Rightarrow> attempt_world \<Rightarrow> attempt_world" where
  "fetchAttemptDetails_settled u reply w =
     (case getActiveAttemptDetails_result reply of
        Inl err \<Rightarrow> fetch_catch err w
      | Inr None \<Rightarrow> fetch_catch \<lparr>err_message = MSG_NO_ACCESS, err_status = None\<rparr> w
      | Inr (Some attemptData) \<Rightarrow>
          if truthy_num (data_userId attemptData) \<and> data_userId attemptData \<noteq> Some (user_id u)
          then fetch_catch \<lparr>err_message = MSG_NO_ACCESS, err_status = None\<rparr> w
          else if isFinished (data_status attemptData)
          then w\<lparr>routed := routed w @ [Replace (QuizResult (page_attemptId w))]\<rparr>
          else install_attempt attemptData w)"

subsection \<open>Answering and submitting\<close>

text \<open>\<open>handleAnswerChange\<close>: one field of one entry; the other fields are kept.\<close>

definition set_field :: "answer_field \<Rightarrow> string \<Rightarrow> answer_entry \<Rightarrow> answer_entry" where
  "set_field field v e =
     (case field of
        AnswerText \<Rightarrow> e\<lparr>answerText := Some v\<rparr>
      | AnswerCoordX \<Rightarrow> e\<lparr>answerCoordX := Some v\<rparr>
      | AnswerCoordY \<Rightarrow> e\<lparr>answerCoordY := Some v\<rparr>)"

definition handleAnswerChange :: "int \<Rightarrow> answer_field \<Rightarrow> string \<Rightarrow> attempt_world \<Rightarrow> attempt_world" where
  "handleAnswerChange slot field v w =
     w\<lparr>answers := obj_set slot
                    (set_field field v (case obj_get (answers w) slot of
                                           None \<Rightarrow> no_entry | Some e \<Rightarrow> e))
                    (answers w),
       answers_ref := fresh w,
       fresh := fresh w + 1\<rparr>"

text \<open>\<open>attemptsAPI.submitAttempt\<close>.\<close>

definition submitAttempt_result :: "'a http \<Rightarrow> js_error + 'a" where
  "submitAttempt_result reply = api_result MSG_SUBMIT_API_FAILED reply"

text \<open>
  \<open>handleSubmit\<close> up to its \<open>await\<close>.  The guard reads \<open>isSubmitting\<close> and \<open>role\<close> of the
  render that created the callback, and the answers sent are that render's; the updater
  of \<open>setPageState\<close> works on the current state.
\<close>

definition handleSubmit :: "closure \<Rightarrow> bool \<Rightarrow> attempt_world \<Rightarrow> attempt_world" where
  "handleSubmit c timedOut w =
     (if isSubmitting (c_pageState c) \<or> AttemptPageState.role (c_pageState c) = Some Sender then w
      else w\<lparr>pageState := (pageState w)\<lparr>isSubmitting := True, error := None\<rparr>,
             calls := calls w @ [SubmitAttempt (page_attemptId w) (formatAnswers (c_answers c))]\<rparr>)"

text \<open>\<open>handleSubmit\<close> after its \<open>await\<close>.\<close>

definition handleSubmit_settled :: "'a http \<Rightarrow> attempt_world \<Rightarrow> attempt_world" where
  "handleSubmit_settled reply w =
     (case submitAttempt_result reply of
        Inr result \<Rightarrow>
          w\<lparr>toasted := toasted w @ [(ToastSuccess, None)],
            routed := routed w @ [Push (QuizResult (page_attemptId w))]\<rparr>
      | Inl err \<Rightarrow>
          (let errorMsg = or_default (Some (err_message err)) MSG_SUBMIT_FAILED
           in w\<lparr>pageState := (pageState w)\<lparr>error := Some errorMsg, isSubmitting := False\<rparr>,
                toasted := toasted w @ [(ToastError, Some errorMsg)]\<rparr>))"

text \<open>The number of calls of the submit endpoint made so far.\<close>

fun isSubmitCall :: "attempt_call \<Rightarrow> bool" where
  "isSubmitCall (SubmitAttempt a xs) = True"
| "isSubmitCall (GetActiveAttempt a) = False"

definition submitCount :: "attempt_world \<Rightarrow> nat" where
  "submitCount w = length (filter isSubmitCall (calls w))"

subsection \<open>The countdown\<close>

text \<open>
  The body of the timer effect, for the render with state \<open>ps\<close> and callbacks \<open>c\<close>, run
  when the client's clock shows \<open>now\<close> (milliseconds).  \<open>Math.floor\<close> of the quotient is
  \<open>div\<close> on integers.
\<close>

definition timerEffect :: "AttemptPageState \<Rightarrow> closure \<Rightarrow> int \<Rightarrow> attempt_world \<Rightarrow> attempt_world" where
  "timerEffect ps c now w =
     (case startTime ps of
        None \<Rightarrow> w\<lparr>timeLeft := None\<rparr>
      | Some start \<Rightarrow>
          if timeLimitSeconds ps \<le> 0 \<or> (status ps \<noteq> ''inprogress'' \<and> status ps \<noteq> ''started'')
          then w\<lparr>timeLeft := None\<rparr>
          else
            (let startTimestamp = getTime start;
                 nowTimestamp = now;
                 elapsedMs = nowTimestamp - startTimestamp;
                 remainingSeconds = max 0 (timeLimitSeconds ps - elapsedMs div 1000)
             in if remainingSeconds \<le> 0 \<and> AttemptPageState.role ps \<noteq> Some Sender
                then w\<lparr>timeLeft := Some remainingSeconds,
                       toasted := toasted w @ [(ToastInfo, None)],
                       timeouts := timeouts w @ [AutoSubmit c]\<rparr>
                else w\<lparr>timeLeft := Some remainingSeconds,
                       interval := Some (AttemptPageState.role ps, c)\<rparr>))"

text \<open>The callback of the interval, called once per second while the interval lives.\<close>

definition timerTick :: "attempt_world \<Rightarrow> attempt_world" where
  "timerTick w =
     (case interval w of
        None \<Rightarrow> w
      | Some (r, c) \<Rightarrow>
          (case timeLeft w of
             None \<Rightarrow> w\<lparr>interval := None\<rparr>
           | Some prev \<Rightarrow>
               if prev \<le> 1
               then (if r \<noteq> Some Sender
                     then w\<lparr>interval := None, timeLeft := Some 0,
                            toasted := toasted w @ [(ToastInfo, None)],
                            timeouts := timeouts w @ [AutoSubmit c]\<rparr>
                     else w\<lparr>interval := None, timeLeft := Some 0\<rparr>)
               else w\<lparr>timeLeft := Some (prev - 1)\<rparr>))"

subsection \<open>The sender's listener\<close>

text \<open>The \<open>exam_completed\<close> listener: a toast with the score and a redirect half a second
  later.\<close>

definition on_exam_completed :: "string \<Rightarrow> attempt_world \<Rightarrow> attempt_world" where
  "on_exam_completed score w =
     w\<lparr>toasted := toasted w @ [(ToastSuccess, Some score)],
       timeouts := timeouts w @ [ResultRedirect]\<rparr>"

text \<open>The event reaches the listener only where the effect has registered it.\<close>

definition receive_exam_completed :: "string \<Rightarrow> attempt_world \<Rightarrow> attempt_world" where
  "receive_exam_completed score w = (if listening w then on_exam_completed score w else w)"

subsection \<open>Commits, timeouts and clicks\<close>

text \<open>The dependencies of the timer effect in the current state.\<close>

definition current_deps :: "attempt_world \<Rightarrow> timer_deps" where
  "current_deps w =
     (map_option date_ref (startTime (pageState w)),
      timeLimitSeconds (pageState w),
      status (pageState w),
      AttemptPageState.role (pageState w),
      (answers_ref w, isSubmitting (pageState w), AttemptPageState.role (pageState w)))"

text \<open>
  A commit: React renders the current state, the callbacks of the new render replace
  the old ones, the socket effect registers the \<open>exam_completed\<close> listener for a sender
  with a connected socket, and the timer effect runs again (after its cleanup, which
  clears the interval) when one of its dependencies has changed.
\<close>

definition commit :: "int \<Rightarrow> attempt_world \<Rightarrow> attempt_world" where
  "commit now w =
     (let c = \<lparr>c_pageState = pageState w, c_answers = answers w,
               c_currentQuestionIndex = currentQuestionIndex w\<rparr>;
          w1 = w\<lparr>rendered := c,
                 listening := (hasSocket w \<and> isConnected w
                               \<and> AttemptPageState.role (pageState w) = Some Sender)\<rparr>
      in if effect_deps w = Some (current_deps w) then w1
         else timerEffect (pageState w) c now
                (w1\<lparr>interval := None, effect_deps := Some (current_deps w)\<rparr>))"

text \<open>A pending timeout fires: the one at position \<open>i\<close> of those pending.\<close>

definition fire_timeout :: "nat \<Rightarrow> attempt_world \<Rightarrow> attempt_world" where
  "fire_timeout i w =
     (if i < length (timeouts w)
      then (let w1 = w\<lparr>timeouts := take i (timeouts w) @ drop (Suc i) (timeouts w)\<rparr>
            in case timeouts w ! i of
                 AutoSubmit c \<Rightarrow> handleSubmit c True w1
               | ResultRedirect \<Rightarrow> w1\<lparr>routed := routed w1 @ [Replace (QuizResult (page_attemptId w1))]\<rparr>)
      else w)"

text \<open>What the page returns for a render, by the order of its early returns.\<close>

datatype view = LoadingView | ErrorView | SenderView | NoQuestionView | AnswerForm

definition render_view :: "bool \<Rightarrow> closure \<Rightarrow> view" where
  "render_view authLoading c =
     (if isLoading (c_pageState c) \<or> authLoading then LoadingView
      else if truthy_str (error (c_pageState c)) \<and> \<not> isSubmitting (c_pageState c) then ErrorView
      else if AttemptPageState.role (c_pageState c) = Some Sender then SenderView
      else if length (questions (c_pageState c)) \<le> c_currentQuestionIndex c then NoQuestionView
      else AnswerForm)"

text \<open>What the page would show if the current state were rendered.\<close>

definition current_view :: "attempt_world \<Rightarrow> view" where
  "current_view w =
     render_view (isAuthLoading w)
       \<lparr>c_pageState = pageState w, c_answers = answers w,
        c_currentQuestionIndex = currentQuestionIndex w\<rparr>"

text \<open>
  A click on the submit button.  The button exists in the answer form of the committed
  render on the last question and is disabled while that render's \<open>isSubmitting\<close> holds;
  its handler is that render's \<open>handleSubmit\<close>.
\<close>

definition click_submit :: "attempt_world \<Rightarrow> attempt_world" where
  "click_submit w =
     (let c = rendered w
      in if render_view (isAuthLoading w) c = AnswerForm
            \<and> Suc (c_currentQuestionIndex c) = length (questions (c_pageState c))
            \<and> \<not> isSubmitting (c_pageState c)
         then handleSubmit c False w
         else w)"

text \<open>The events of a run of the page, and a run as the events applied in order.\<close>

datatype 'a attempt_event =
    Commit int
  | Fetch
  | FetchSettled user "attempt_data option http"
  | AnswerChange int answer_field string
  | Tick
  | Fire nat
  | ClickSubmit
  | SubmitSettled "'a http"
  | ExamCompleted string

fun step :: "attempt_world \<Rightarrow> 'a attempt_event \<Rightarrow> attempt_world" where
  "step w (Commit now) = commit now w"
| "step w Fetch = fetchAttemptDetails w"
| "step w (FetchSettled u reply) = fetchAttemptDetails_settled u reply w"
| "step w (AnswerChange slot field v) = handleAnswerChange slot field v w"
| "step w Tick = timerTick w"
| "step w (Fire i) = fire_timeout i w"
| "step w ClickSubmit = click_submit w"
| "step w (SubmitSettled reply) = handleSubmit_settled reply w"
| "step w (ExamCompleted score) = receive_exam_completed score w"

definition run :: "attempt_world \<Rightarrow> 'a attempt_event list \<Rightarrow> attempt_world" where
  "run w evs = foldl step w evs"

text \<open>
  What holds on the sender's page once it is rendered: the state and the rendered
  callbacks belong to a sender, no automatic submit is pending, and a live interval was
  created by a sender's render.
\<close>

definition sender_inv :: "attempt_world \<Rightarrow> bool" where
  "sender_inv w =
     (AttemptPageState.role (pageState w) = Some Sender
      \<and> AttemptPageState.role (c_pageState (rendered w)) = Some Sender
      \<and> list_all (\<lambda>t. t = ResultRedirect) (timeouts w)
      \<and> (interval w = None \<or> map_option fst (interval w) = Some (Some Sender)))"

text \<open>The event that can change the role: the settlement of a fetch.\<close>

fun isFetchSettled :: "'a attempt_event \<Rightarrow> bool" where
  "isFetchSettled (FetchSettled u reply) = True"
| "isFetchSettled ev = False"


section \<open>Example inputs\<close>

text \<open>Concrete states and replies on which the properties below are evaluated.\<close>

definition idle_socket_world :: socket_world where
  "idle_socket_world =
     \<lparr>store = (\<lambda>a. \<lparr>connected = False, emitted = []\<rparr>), socket = Some 0,
      socketInstance = Some 0, console = []\<rparr>"

definition radio_template :: ApiTemplateSummary where
  "radio_template =
     \<lparr>template_id = 7, template_name = ''Radio drill'', base_type = Communication,
      description = None, time_limit_seconds = 600, question_count = 3\<rparr>"

text \<open>
  A stand-in for the engine's table in the examples: it maps every code point to
  itself.  The examples that send a code type ASCII only, where no table is consulted.
\<close>

definition no_table :: "nat \<Rightarrow> nat list" where
  "no_table cp = [cp]"

definition alice_props :: start_props where
  "alice_props =
     \<lparr>props_user = Some (User 2 ''alice''), templateId = Some 7, unicodeUpper = no_table\<rparr>"

definition sender_ready :: StartPageState where
  "sender_ready =
     initial_start_state\<lparr>templateInfo := Some radio_template, isLoadingTemplate := False,
       StartPageState.role := Some Sender\<rparr>"

definition joiner_typed :: StartPageState where
  "joiner_typed =
     initial_start_state\<lparr>templateInfo := Some radio_template, isLoadingTemplate := False,
       StartPageState.role := Some Receiver, pairingCodeInput := units ''ab12cd''\<rparr>"

text \<open>The same joiner with white space around the code, and with nothing but white space.\<close>

definition joiner_padded :: StartPageState where
  "joiner_padded = joiner_typed\<lparr>pairingCodeInput := [32, 160] @ units ''ab12cd'' @ [9, 8232]\<rparr>"

definition joiner_blank :: StartPageState where
  "joiner_blank = joiner_typed\<lparr>pairingCodeInput := [160, 12288, 32]\<rparr>"

text \<open>
  An excerpt of the engine's table, for \<open>e\<close> with acute accent (U+00E9, to U+00C9) and the
  sharp s (U+00DF, to \<open>SS\<close>), and a joiner who typed a no-break space and these letters.
\<close>

definition table_excerpt :: "nat \<Rightarrow> nat list" where
  "table_excerpt cp = (if cp = 233 then [201] else if cp = 223 then [83, 83] else [cp])"

definition carol_props :: start_props where
  "carol_props =
     \<lparr>props_user = Some (User 3 ''carol''), templateId = Some 7, unicodeUpper = table_excerpt\<rparr>"

definition joiner_accented :: StartPageState where
  "joiner_accented = joiner_typed\<lparr>pairingCodeInput := [160, 233, 98, 223]\<rparr>"

definition joiner_waiting :: StartPageState where
  "joiner_waiting = joiner_typed\<lparr>isJoiningPairing := True\<rparr>"

definition start_world_of :: "StartPageState \<Rightarrow> start_world" where
  "start_world_of st =
     \<lparr>state = st, socketConnectError = None, autoStart_deps = None, connectError_dep = None,
      requests = [], navs = [], toasts = []\<rparr>"

text \<open>
  A run of the sender's start page: the first render starts the attempt, the socket
  reports a connection error while that request is pending, and React renders again.
\<close>

definition connect_error_run :: "start_event list" where
  "connect_error_run =
     [StartCommit, StartCommit, ConnectErrorChanged (Some ''Connection error: timeout''),
      StartCommit, StartCommit]"

definition join_ok :: "attempt_response option http" where
  "join_ok = Http_ok (Some \<lparr>resp_attemptId = Some 5, resp_pairingCode = None, resp_message = None\<rparr>)"

definition bob :: user where
  "bob = User 1 ''bob''"

definition question1 :: AttemptQuestion where
  "question1 =
     \<lparr>slot_order = 1, question_id = 11, question_type = Elevation, content = ''Height of hill 3''\<rparr>"

definition running_attempt :: attempt_data where
  "running_attempt =
     \<lparr>data_userId = Some 1, data_status = Some ''inprogress'', data_questions = Some [question1],
      data_role = Some Receiver, data_pairingCode = None, data_templateName = Some ''Drill'',
      data_startTime = Some 0, data_timeLimit = Some 60\<rparr>"

definition waiting_attempt :: attempt_data where
  "waiting_attempt = running_attempt\<lparr>data_status := Some ''waiting_pair''\<rparr>"

definition sender_attempt :: attempt_data where
  "sender_attempt = running_attempt\<lparr>data_role := Some Sender\<rparr>"

definition foreign_finished :: attempt_data where
  "foreign_finished =
     \<lparr>data_userId = Some 2, data_status = Some ''completed'', data_questions = None,
      data_role = None, data_pairingCode = None, data_templateName = None,
      data_startTime = None, data_timeLimit = None\<rparr>"

definition own_finished :: attempt_data where
  "own_finished = foreign_finished\<lparr>data_userId := Some 1\<rparr>"

definition conflict_timed_out :: "attempt_data option http" where
  "conflict_timed_out =
     Http_error (Some \<lparr>http_status = 409,
                       http_data = Some \<lparr>body_message = None, body_status = Some ''timed_out''\<rparr>\<rparr>)"

text \<open>The page of attempt 9 as mounted for \<open>bob\<close>, and after the load of an attempt.\<close>

definition mounted :: attempt_world where
  "mounted = initial_attempt_world (Some 9) (Some bob)"

definition loaded :: "attempt_data \<Rightarrow> attempt_world" where
  "loaded d = fetchAttemptDetails_settled bob (Http_ok (Some d)) (fetchAttemptDetails mounted)"

text \<open>
  A run of the loaded page.  The first render happens one second before the deadline,
  the user types an answer, the interval reaches zero and schedules the automatic
  submit, the user clicks the submit button before that timeout runs, React renders
  the new state, and the two pending timeouts run.
\<close>

definition race :: "unit attempt_event list" where
  "race =
     [Commit 59000, AnswerChange 1 AnswerText ''42'', Commit 59500, Tick, Commit 60500,
      ClickSubmit, Commit 60600, Fire 0, Fire 0]"

text \<open>
  A run without any tick: the first render 0.9 seconds after the start time, then an
  answer typed and rendered a tenth of a second later.
\<close>

definition typing :: "unit attempt_event list" where
  "typing = [Commit 900, AnswerChange 1 AnswerText ''4'', Commit 1000]"

text \<open>
  A run with a failing submit: the first render, an answer typed and rendered, the click
  on the submit button and its render, the failure of the request, and the render of
  the state it leaves.  \<open>retry_load\<close> is the load that the error view offers.
\<close>

definition failed_submit :: "unit attempt_event list" where
  "failed_submit =
     [Commit 0, AnswerChange 1 AnswerText ''42'', Commit 500, ClickSubmit, Commit 600,
      SubmitSettled (Http_error None), Commit 700]"

definition retry_load :: "unit attempt_event list" where
  "retry_load = [Fetch, FetchSettled bob (Http_ok (Some running_attempt)), Commit 900]"

text \<open>The sender's page: render, the \<open>exam_completed\<close> event, the delayed redirect.\<close>

definition sender_run :: "unit attempt_event list" where
  "sender_run = [Commit 1000, ExamCompleted ''87'', Fire 0]"


section \<open>Properties\<close>

subsection \<open>Auxiliary facts\<close>

lemmas eval_defs =
  run_def submitCount_def commit_def timerEffect_def timerTick_def click_submit_def
  fire_timeout_def handleSubmit_def handleAnswerChange_def fetchAttemptDetails_settled_def
  fetchAttemptDetails_def install_attempt_def fetch_catch_def initial_attempt_world_def
  initial_pageState_def getActiveAttemptDetails_result_def isFinished_def truthy_num_def
  current_deps_def render_view_def current_view_def truthy_str_def or_default_def or_null_def
  initialAnswers_def obj_get_def isArrayIndex_def set_field_def formatAnswers_def
  blank_entry_def Let_def receive_exam_completed_def on_exam_completed_def
  handleSubmit_settled_def submitAttempt_result_def api_result_def response_message_def

lemmas start_eval_defs =
  start_run_def start_commit_def current_autoStart_deps_def autoStartEffect_def
  handleStartAttempt_def connectErrorEffect_def startAttempt_request_def truthy_num_def
  start_world_of_def sender_ready_def radio_template_def alice_props_def
  initial_start_state_def Let_def

lemmas example_defs =
  mounted_def loaded_def bob_def question1_def running_attempt_def waiting_attempt_def
  sender_attempt_def foreign_finished_def own_finished_def conflict_timed_out_def

lemma or_default_nonempty: "d \<noteq> [] \<Longrightarrow> or_default x d \<noteq> []"
  by (simp add: or_default_def split: option.splits)

lemma MSG_PAIRING_FAILED_nonempty: "MSG_PAIRING_FAILED \<noteq> []"
  by (simp add: MSG_PAIRING_FAILED_def)

text \<open>\<open>trim\<close> removes a prefix and a suffix of white space, and nothing else.\<close>

lemma trimStart_decompose: "\<exists>pre. s = pre @ trimStart s \<and> list_all isWhiteSpace pre"
  unfolding trimStart_def
  by (metis takeWhile_dropWhile_id list_all_iff set_takeWhileD)

lemma trimEnd_decompose: "\<exists>suf. s = trimEnd s @ suf \<and> list_all isWhiteSpace suf"
proof -
  obtain pre where p: "rev s = pre @ dropWhile isWhiteSpace (rev s)" "list_all isWhiteSpace pre"
    using trimStart_decompose [of "rev s"] unfolding trimStart_def by blast
  have "s = rev (dropWhile isWhiteSpace (rev s)) @ rev pre"
    using p(1) by (metis rev_append rev_rev_ident)
  moreover have "list_all isWhiteSpace (rev pre)"
    using p(2) by (simp add: list_all_iff)
  ultimately show ?thesis
    unfolding trimEnd_def by blast
qed

lemma trim_decompose:
  "\<exists>pre suf. s = pre @ trim s @ suf \<and> list_all isWhiteSpace pre \<and> list_all isWhiteSpace suf"
proof -
  obtain pre where p: "s = pre @ trimStart s" "list_all isWhiteSpace pre"
    using trimStart_decompose by blast
  obtain suf where q: "trimStart s = trimEnd (trimStart s) @ suf" "list_all isWhiteSpace suf"
    using trimEnd_decompose by blast
  have "s = pre @ trim s @ suf"
    using p(1) q(1) by (simp add: trim_def)
  then show ?thesis
    using p(2) q(2) by blast
qed

text \<open>What \<open>trim\<close> leaves neither starts nor ends with white space.\<close>

lemma trim_ends:
  assumes "trim s \<noteq> []"
  shows "\<not> isWhiteSpace (hd (trim s)) \<and> \<not> isWhiteSpace (last (trim s))"
proof -
  let ?t = "trimStart s"
  have ne: "dropWhile isWhiteSpace (rev ?t) \<noteq> []"
    using assms by (simp add: trim_def trimEnd_def)
  have l: "\<not> isWhiteSpace (last (trim s))"
    using ne by (simp add: trim_def trimEnd_def last_rev hd_dropWhile)
  have "?t \<noteq> []"
    using ne by auto
  then have h: "\<not> isWhiteSpace (hd ?t)"
    unfolding trimStart_def by (simp add: hd_dropWhile)
  obtain suf where q: "?t = trim s @ suf"
    using trimEnd_decompose [of ?t] by (auto simp: trim_def)
  have "hd (trim s) = hd ?t"
    using q assms by (metis hd_append2)
  then show ?thesis
    using h l by simp
qed

text \<open>A string without leading and trailing white space is left as it is.\<close>

lemma trim_id:
  assumes "s \<noteq> []" and "\<not> isWhiteSpace (hd s)" and "\<not> isWhiteSpace (last s)"
  shows "trim s = s"
proof -
  have a: "trimStart s = s"
    using assms(1,2) unfolding trimStart_def by (cases s) simp_all
  have "rev s \<noteq> []" "\<not> isWhiteSpace (hd (rev s))"
    using assms(1,3) by (simp_all add: hd_rev)
  then have "dropWhile isWhiteSpace (rev s) = rev s"
    by (cases "rev s") simp_all
  then show ?thesis
    by (simp add: trim_def trimEnd_def a)
qed

text \<open>
  \<open>trim\<close> is determined by what it does: whichever way the input splits into white
  space, a core without white space at its ends, and white space, the core is the
  result.
\<close>

lemma trim_unique:
  assumes "s = pre @ core @ suf" and "list_all isWhiteSpace pre" and "list_all isWhiteSpace suf"
    and "core \<noteq> [] \<longrightarrow> \<not> isWhiteSpace (hd core) \<and> \<not> isWhiteSpace (last core)"
  shows "trim s = core"
proof (cases "core = []")
  case True
  then have "\<forall>x\<in>set s. isWhiteSpace x"
    using assms(1-3) by (auto simp: list_all_iff)
  then have d: "dropWhile isWhiteSpace s = []"
    by (metis dropWhile_eq_Nil_conv)
  show ?thesis
    unfolding trim_def trimStart_def trimEnd_def d using True by simp
next
  case False
  then have h: "\<not> isWhiteSpace (hd core)" and l: "\<not> isWhiteSpace (last core)"
    using assms(4) by simp_all
  have "dropWhile isWhiteSpace (pre @ core @ suf) = dropWhile isWhiteSpace (core @ suf)"
    using assms(2) by (simp add: list_all_iff dropWhile_append)
  also have "\<dots> = core @ suf"
    using False h by (cases core) simp_all
  finally have s1: "trimStart s = core @ suf"
    by (simp add: trimStart_def assms(1))
  have "dropWhile isWhiteSpace (rev suf @ rev core) = dropWhile isWhiteSpace (rev core)"
    using assms(3) by (simp add: list_all_iff dropWhile_append)
  also have "\<dots> = rev core"
    using False l by (cases "rev core") (simp_all add: hd_rev)
  finally show ?thesis
    by (simp add: trim_def trimEnd_def s1)
qed

text \<open>On ASCII strings \<open>toUpperCase\<close> consults no table and works letter by letter.\<close>

lemma codePoints_ascii: "list_all (\<lambda>c. c < 128) s \<Longrightarrow> codePoints s = s"
  by (induction s rule: codePoints.induct) (simp_all add: isHighSurrogate_def)

lemma toUpperCase_ascii:
  assumes "list_all (\<lambda>c. c < 128) s"
  shows "toUpperCase table s = map upperAscii s"
proof -
  have "concat (map (\<lambda>cp. concat (map codeUnitsOf (upperMapping table cp))) s) = map upperAscii s"
    using assms
    by (induction s) (auto simp: upperMapping_def codeUnitsOf_def upperAscii_def)
  then show ?thesis
    using codePoints_ascii [OF assms] by (simp add: toUpperCase_def)
qed

lemma handleJoinPairing_requests:
  "requests (handleJoinPairing p sc w)
     = (if trim (pairingCodeInput sc) = [] then requests w
        else requests w @ [PostJoinPairing (toUpperCase (unicodeUpper p) (trim (pairingCodeInput sc)))
                             (templateId p)])"
  by (simp add: handleJoinPairing_def joinPairing_request_def)

lemma ab12cd_normalized:
  "trim (units ''ab12cd'') = units ''ab12cd''"
  "toUpperCase table (units ''ab12cd'') = units ''AB12CD''"
proof -
  show "trim (units ''ab12cd'') = units ''ab12cd''"
    by (rule trim_id) (simp_all add: units_def isWhiteSpace_def)
  have "list_all (\<lambda>c. c < 128) (units ''ab12cd'')"
    by (simp add: units_def)
  then show "toUpperCase table (units ''ab12cd'') = units ''AB12CD''"
    by (simp add: toUpperCase_ascii) (simp add: units_def upperAscii_def)
qed

text \<open>The guard of \<open>handleSubmit\<close>, on the render the callback belongs to.\<close>

lemma handleSubmit_guard:
  "isSubmitting (c_pageState c) \<Longrightarrow> handleSubmit c timedOut w = w"
  by (simp add: handleSubmit_def)

text \<open>
  The same callback called twice submits twice: the first call sets \<open>isSubmitting\<close> in
  the state, the second reads it in the render it closed over.
\<close>

lemma handleSubmit_twice:
  assumes "\<not> isSubmitting (c_pageState c)"
    and "AttemptPageState.role (c_pageState c) \<noteq> Some Sender"
  shows "submitCount (handleSubmit c t2 (handleSubmit c t1 w)) = submitCount w + 2"
  using assms by (simp add: handleSubmit_def submitCount_def)

text \<open>
  What the guard of the start operation does achieve.  An invocation from a render that
  shows \<open>isStartingAttempt\<close> returns without a request and without any change; an
  invocation that sends a request sends exactly one and sets the flag, so that a further
  invocation from the render of that state sends none.  The flag is cleared when the
  request settles, and also by a connection error of the socket.
\<close>

lemma startAttempt_inflight_guard:
  "(isStartingAttempt sc \<longrightarrow>
      handleStartAttempt p sc w = w \<and> autoStartEffect p sc w = w)
   \<and> (requests (handleStartAttempt p sc w) \<noteq> requests w \<longrightarrow>
        requests (handleStartAttempt p sc w)
          = requests w @ [PostStart (templateId p) (StartPageState.role sc)]
        \<and> isStartingAttempt (state (handleStartAttempt p sc w))
        \<and> handleStartAttempt p (state (handleStartAttempt p sc w)) (handleStartAttempt p sc w)
            = handleStartAttempt p sc w)
   \<and> \<not> isStartingAttempt (state (handleStartAttempt_settled sc reply w))
   \<and> (e \<noteq> [] \<longrightarrow> \<not> isStartingAttempt (state (connectErrorEffect (Some e) w))
                  \<and> requests (connectErrorEffect (Some e) w) = requests w)"
  by (auto simp: handleStartAttempt_def autoStartEffect_def startAttempt_request_def
      handleStartAttempt_settled_def startAttempt_failed_def startAttempt_result_def
      api_result_def connectErrorEffect_def Let_def
      split: option.splits if_splits sum.splits http.splits)

text \<open>The steps of the load of a finished attempt.\<close>

lemma ownership_passes:
  "data_userId d = None \<or> data_userId d = Some 0 \<or> data_userId d = Some (user_id u) \<Longrightarrow>
     \<not> (truthy_num (data_userId d) \<and> data_userId d \<noteq> Some (user_id u))"
  by (auto simp: truthy_num_def)

lemma fetch_settled_finished_body:
  assumes "isFinished (data_status d)"
    and "data_userId d = None \<or> data_userId d = Some 0 \<or> data_userId d = Some (user_id u)"
  shows "fetchAttemptDetails_settled u (Http_ok (Some d)) w
           = w\<lparr>routed := routed w @ [Replace (QuizResult (page_attemptId w))]\<rparr>"
proof -
  have "\<not> (truthy_num (data_userId d) \<and> data_userId d \<noteq> Some (user_id u))"
    using assms(2) by (rule ownership_passes)
  then have "fetchAttemptDetails_settled u (Http_ok (Some d)) w
      = (if isFinished (data_status d)
         then w\<lparr>routed := routed w @ [Replace (QuizResult (page_attemptId w))]\<rparr>
         else install_attempt d w)"
    unfolding fetchAttemptDetails_settled_def getActiveAttemptDetails_result_def
    by (simp only: http.case sum.case option.case if_False)
  then show ?thesis
    using assms(1) by simp
qed

lemma fetch_settled_finished_conflict:
  assumes "isFinished (body_status e)"
  shows "fetchAttemptDetails_settled u (Http_error (Some \<lparr>http_status = 409, http_data = Some e\<rparr>)) w
           = w\<lparr>routed := routed w @ [Replace (QuizResult (page_attemptId w))]\<rparr>"
  using assms
  by (simp add: fetchAttemptDetails_settled_def getActiveAttemptDetails_result_def fetch_catch_def)

lemma fetchAttemptDetails_sends:
  assumes "page_attemptId w = Some a" and "page_user w = Some u"
  shows "fetchAttemptDetails w
           = w\<lparr>pageState := (pageState w)\<lparr>isLoading := True, error := None\<rparr>,
                calls := calls w @ [GetActiveAttempt a]\<rparr>"
  using assms by (simp add: fetchAttemptDetails_def)

lemma loading_view:
  "isLoading (pageState w) \<Longrightarrow> current_view w = LoadingView"
  by (simp add: current_view_def render_view_def)

text \<open>The remaining time after each of the three operations that set it.\<close>

lemma timerEffect_timeLeft:
  "timeLeft (timerEffect ps c now w)
     = (case startTime ps of
          None \<Rightarrow> None
        | Some start \<Rightarrow>
            if timeLimitSeconds ps \<le> 0 \<or> (status ps \<noteq> ''inprogress'' \<and> status ps \<noteq> ''started'')
            then None
            else Some (max 0 (timeLimitSeconds ps - (now - getTime start) div 1000)))"
proof (cases "startTime ps")
  case None
  then show ?thesis
    by (simp add: timerEffect_def)
next
  case (Some start)
  show ?thesis
  proof (cases "timeLimitSeconds ps \<le> 0 \<or> (status ps \<noteq> ''inprogress'' \<and> status ps \<noteq> ''started'')")
    case True
    then show ?thesis
      using Some by (simp add: timerEffect_def)
  next
    case False
    then show ?thesis
      using Some by (simp add: timerEffect_def Let_def)
  qed
qed

lemma timerTick_timeLeft:
  "timeLeft (timerTick w)
     = (case interval w of
          None \<Rightarrow> timeLeft w
        | Some live \<Rightarrow> map_option (\<lambda>prev. max 0 (prev - 1)) (timeLeft w))"
  by (simp add: timerTick_def split: option.splits prod.splits)

lemma commit_timeLeft:
  "timeLeft (commit now w)
     = (if effect_deps w = Some (current_deps w) then timeLeft w
        else timeLeft (timerEffect (pageState w) (rendered (commit now w)) now w))"
  by (simp add: commit_def Let_def timerEffect_timeLeft)

text \<open>
  The sender's page never submits: every event but the settlement of a fetch keeps the
  page a sender's and leaves the number of submit calls alone.
\<close>

lemma list_all_remove_nth:
  "list_all P xs \<Longrightarrow> list_all P (take i xs @ drop (Suc i) xs)"
  by (auto simp: list_all_iff dest: in_set_takeD in_set_dropD)

lemma sender_inv_commit:
  assumes "sender_inv w"
  shows "sender_inv (commit now w) \<and> calls (commit now w) = calls w"
proof -
  let ?c = "\<lparr>c_pageState = pageState w, c_answers = answers w,
              c_currentQuestionIndex = currentQuestionIndex w\<rparr>"
  have r: "AttemptPageState.role (pageState w) = Some Sender"
    using assms by (simp add: sender_inv_def)
  have t: "list_all (\<lambda>t. t = ResultRedirect) (timeouts w)"
    using assms by (simp add: sender_inv_def)
  have i: "interval w = None \<or> map_option fst (interval w) = Some (Some Sender)"
    using assms by (simp add: sender_inv_def)
  show ?thesis
  proof (cases "effect_deps w = Some (current_deps w)")
    case True
    then show ?thesis
      using r t i by (simp add: commit_def Let_def sender_inv_def)
  next
    case False
    then show ?thesis
      using r t by (simp add: commit_def Let_def sender_inv_def timerEffect_def split: option.splits)
  qed
qed

lemma sender_inv_tick:
  assumes "sender_inv w"
  shows "sender_inv (timerTick w) \<and> calls (timerTick w) = calls w"
  using assms
  by (auto simp: timerTick_def sender_inv_def split: option.splits)

lemma sender_inv_fire:
  assumes "sender_inv w"
  shows "sender_inv (fire_timeout i w) \<and> calls (fire_timeout i w) = calls w"
proof (cases "i < length (timeouts w)")
  case False
  then show ?thesis
    using assms by (simp add: fire_timeout_def)
next
  case True
  have t: "list_all (\<lambda>t. t = ResultRedirect) (timeouts w)"
    using assms by (simp add: sender_inv_def)
  then have "timeouts w ! i = ResultRedirect"
    using True by (simp add: list_all_length)
  moreover have "list_all (\<lambda>t. t = ResultRedirect) (take i (timeouts w) @ drop (Suc i) (timeouts w))"
    using t by (rule list_all_remove_nth)
  ultimately show ?thesis
    using assms True by (simp add: fire_timeout_def Let_def sender_inv_def)
qed

lemma sender_inv_handleSubmit:
  "AttemptPageState.role (c_pageState c) = Some Sender \<Longrightarrow> handleSubmit c timedOut w = w"
  by (simp add: handleSubmit_def)

lemma sender_inv_click:
  assumes "sender_inv w"
  shows "click_submit w = w"
  using assms by (simp add: click_submit_def Let_def sender_inv_def sender_inv_handleSubmit)

lemma sender_inv_submit_settled:
  assumes "sender_inv w"
  shows "sender_inv (handleSubmit_settled reply w) \<and> calls (handleSubmit_settled reply w) = calls w"
  using assms
  by (simp add: handleSubmit_settled_def Let_def sender_inv_def split: sum.splits)

lemma sender_inv_step:
  assumes "sender_inv w" and "\<not> isFetchSettled ev"
  shows "sender_inv (step w ev) \<and> submitCount (step w ev) = submitCount w"
proof (cases ev)
  case (Commit now)
  then show ?thesis using sender_inv_commit [OF assms(1), of now] by (simp add: submitCount_def)
next
  case Fetch
  then show ?thesis
    using assms(1)
    by (auto simp: fetchAttemptDetails_def sender_inv_def submitCount_def split: option.splits)
next
  case (FetchSettled u reply)
  then show ?thesis using assms(2) by simp
next
  case (AnswerChange slot field v)
  then show ?thesis
    using assms(1) by (simp add: handleAnswerChange_def sender_inv_def submitCount_def)
next
  case Tick
  then show ?thesis using sender_inv_tick [OF assms(1)] by (simp add: submitCount_def)
next
  case (Fire i)
  then show ?thesis using sender_inv_fire [OF assms(1), of i] by (simp add: submitCount_def)
next
  case ClickSubmit
  then show ?thesis using sender_inv_click [OF assms(1)] assms(1) by simp
next
  case (SubmitSettled reply)
  then show ?thesis
    using sender_inv_submit_settled [OF assms(1), of reply] by (simp add: submitCount_def)
next
  case (ExamCompleted score)
  then show ?thesis
    using assms(1)
    by (simp add: receive_exam_completed_def on_exam_completed_def sender_inv_def submitCount_def)
qed

lemma sender_never_submits:
  assumes "sender_inv w" and "list_all (\<lambda>ev. \<not> isFetchSettled ev) evs"
  shows "sender_inv (run w evs) \<and> submitCount (run w evs) = submitCount w"
  using assms
proof (induction evs arbitrary: w)
  case Nil
  then show ?case by (simp add: run_def)
next
  case (Cons ev evs)
  have s: "sender_inv (step w ev)" "submitCount (step w ev) = submitCount w"
    using sender_inv_step [of w ev] Cons.prems by simp_all
  have "sender_inv (run (step w ev) evs) \<and> submitCount (run (step w ev) evs) = submitCount (step w ev)"
    using Cons.IH [OF s(1)] Cons.prems(2) by simp
  then show ?case
    using s(2) by (simp add: run_def)
qed

text \<open>The catch clause of \<open>handleSubmit\<close>, for any failure of the request.\<close>

lemma submit_failed_state:
  "handleSubmit_settled (Http_error r) w
     = w\<lparr>pageState := (pageState w)\<lparr>error := Some (or_default (Some (or_default (response_message r)
                                     MSG_SUBMIT_API_FAILED)) MSG_SUBMIT_FAILED),
                                 isSubmitting := False\<rparr>,
          toasted := toasted w @ [(ToastError, Some (or_default (Some (or_default (response_message r)
                                     MSG_SUBMIT_API_FAILED)) MSG_SUBMIT_FAILED))]\<rparr>"
  by (simp add: handleSubmit_settled_def submitAttempt_result_def api_result_def Let_def)

lemma submit_failed_message:
  "or_default (Some (or_default x MSG_SUBMIT_API_FAILED)) MSG_SUBMIT_FAILED \<noteq> []"
  by (rule or_default_nonempty) (simp add: MSG_SUBMIT_FAILED_def)

text \<open>What the catch clause leaves behind.\<close>

lemma submit_failure_state:
  "(\<exists>m. error (pageState (handleSubmit_settled (Http_error r) w)) = Some m \<and> m \<noteq> []
        \<and> toasted (handleSubmit_settled (Http_error r) w) = toasted w @ [(ToastError, Some m)])
   \<and> \<not> isSubmitting (pageState (handleSubmit_settled (Http_error r) w))
   \<and> answers (handleSubmit_settled (Http_error r) w) = answers w
   \<and> calls (handleSubmit_settled (Http_error r) w) = calls w
   \<and> routed (handleSubmit_settled (Http_error r) w) = routed w"
  by (simp add: submit_failed_state submit_failed_message)

text \<open>No render of the state after a failed submit is the answer form.\<close>

lemma failed_submit_view:
  "render_view authLoading
     \<lparr>c_pageState = pageState (handleSubmit_settled (Http_error r) w), c_answers = a,
      c_currentQuestionIndex = i\<rparr> \<noteq> AnswerForm"
  by (simp add: submit_failed_state render_view_def truthy_str_def submit_failed_message)

lemma commit_rendered:
  "rendered (commit now w)
     = \<lparr>c_pageState = pageState w, c_answers = answers w,
        c_currentQuestionIndex = currentQuestionIndex w\<rparr>"
  "isAuthLoading (commit now w) = isAuthLoading w"
  by (simp_all add: commit_def Let_def timerEffect_def split: option.splits)

lemma failed_submit_no_button:
  "click_submit (commit now (handleSubmit_settled (Http_error r :: 'a http) w))
     = commit now (handleSubmit_settled (Http_error r :: 'a http) w)"
  by (simp add: click_submit_def Let_def commit_rendered failed_submit_view)

subsection \<open>The socket context\<close>

text \<open>
  Claim C10.  The context's \<open>emit\<close> returns \<open>true\<close> exactly when a socket instance
  exists and is connected.  When it returns \<open>false\<close> nothing is emitted on any socket:
  the call logs to the console and returns, it does not throw.
\<close>

theorem emit_guarded:
  "snd (emit event args w) = (\<exists>a. socketInstance w = Some a \<and> connected (store w a))
   \<and> (\<not> snd (emit event args w) \<longrightarrow> store (fst (emit event args w)) = store w)"
  by (simp add: emit_def split: option.splits)

theorem emit_guarded_witness:
  "\<not> snd (emit ''join'' [''x''] idle_socket_world)
   \<and> store (fst (emit ''join'' [''x''] idle_socket_world)) = store idle_socket_world"
  using emit_guarded [of "''join''" "[''x'']" idle_socket_world]
  by (simp add: idle_socket_world_def)

subsection \<open>The start page\<close>

text \<open>
  Claim C5.  Whatever the joiner typed, it splits into white space, a core that neither
  starts nor ends with white space, and white space (which fixes the core); when the
  core is empty \<open>handleJoinPairing\<close> sends nothing, and otherwise the request it sends to
  the join endpoint carries the core converted to upper case, which
  \<open>attemptsAPI.joinPairing\<close> passes on unchanged.  On an ASCII core the conversion maps \<open>a\<close>
  to \<open>z\<close> onto \<open>A\<close> to \<open>Z\<close> and nothing else, whatever the engine's table is.  The input
  \<open>ab12cd\<close> is sent as \<open>AB12CD\<close>.
\<close>

theorem joinPairing_normalizes_code:
  "(\<exists>pre core suf.
      pairingCodeInput sc = pre @ core @ suf
      \<and> list_all isWhiteSpace pre \<and> list_all isWhiteSpace suf
      \<and> (core \<noteq> [] \<longrightarrow> \<not> isWhiteSpace (hd core) \<and> \<not> isWhiteSpace (last core))
      \<and> requests (handleJoinPairing p sc w)
          = (if core = [] then requests w
             else requests w @ [PostJoinPairing (toUpperCase (unicodeUpper p) core) (templateId p)])
      \<and> (list_all (\<lambda>c. c < 128) core \<longrightarrow>
            toUpperCase (unicodeUpper p) core = map upperAscii core))
   \<and> (pairingCodeInput sc = units ''ab12cd'' \<longrightarrow>
        requests (handleJoinPairing p sc w)
          = requests w @ [PostJoinPairing (units ''AB12CD'') (templateId p)])"
proof -
  obtain pre suf where d: "pairingCodeInput sc = pre @ trim (pairingCodeInput sc) @ suf"
      "list_all isWhiteSpace pre" "list_all isWhiteSpace suf"
    using trim_decompose by blast
  have e: "trim (pairingCodeInput sc) \<noteq> [] \<longrightarrow>
      \<not> isWhiteSpace (hd (trim (pairingCodeInput sc)))
      \<and> \<not> isWhiteSpace (last (trim (pairingCodeInput sc)))"
    using trim_ends by blast
  have a: "list_all (\<lambda>c. c < 128) (trim (pairingCodeInput sc)) \<longrightarrow>
      toUpperCase (unicodeUpper p) (trim (pairingCodeInput sc))
        = map upperAscii (trim (pairingCodeInput sc))"
    using toUpperCase_ascii by blast
  have general: "\<exists>pre core suf.
      pairingCodeInput sc = pre @ core @ suf
      \<and> list_all isWhiteSpace pre \<and> list_all isWhiteSpace suf
      \<and> (core \<noteq> [] \<longrightarrow> \<not> isWhiteSpace (hd core) \<and> \<not> isWhiteSpace (last core))
      \<and> requests (handleJoinPairing p sc w)
          = (if core = [] then requests w
             else requests w @ [PostJoinPairing (toUpperCase (unicodeUpper p) core) (templateId p)])
      \<and> (list_all (\<lambda>c. c < 128) core \<longrightarrow>
            toUpperCase (unicodeUpper p) core = map upperAscii core)"
    using d e a handleJoinPairing_requests [of p sc w] by blast
  have inst: "requests (handleJoinPairing p sc w)
          = requests w @ [PostJoinPairing (units ''AB12CD'') (templateId p)]"
    if "pairingCodeInput sc = units ''ab12cd''"
  proof -
    have "trim (pairingCodeInput sc) \<noteq> []"
      using that by (simp add: ab12cd_normalized(1)) (simp add: units_def)
    then show ?thesis
      using that by (simp add: handleJoinPairing_requests ab12cd_normalized)
  qed
  show ?thesis
    using general inst by blast
qed

theorem joinPairing_normalizes_code_witness:
  "pairingCodeInput joiner_typed = units ''ab12cd''
   \<and> requests (handleJoinPairing alice_props joiner_typed (start_world_of joiner_typed))
       = [PostJoinPairing (units ''AB12CD'') (Some 7)]
   \<and> requests (handleJoinPairing alice_props joiner_padded (start_world_of joiner_padded))
       = [PostJoinPairing (units ''AB12CD'') (Some 7)]
   \<and> requests (handleJoinPairing alice_props joiner_blank (start_world_of joiner_blank)) = []
   \<and> requests (handleJoinPairing carol_props joiner_accented (start_world_of joiner_accented))
       = [PostJoinPairing [201, 66, 83, 83] (Some 7)]"
proof -
  have i: "pairingCodeInput joiner_typed = units ''ab12cd''"
    by (simp add: joiner_typed_def)
  have t: "requests (handleJoinPairing alice_props joiner_typed (start_world_of joiner_typed))
       = [PostJoinPairing (units ''AB12CD'') (Some 7)]"
    using joinPairing_normalizes_code [of joiner_typed alice_props "start_world_of joiner_typed"] i
    by (simp add: start_world_of_def alice_props_def)
  have padded: "trim (pairingCodeInput joiner_padded) = units ''ab12cd''"
  proof (rule trim_unique)
    show "pairingCodeInput joiner_padded = [32, 160] @ units ''ab12cd'' @ [9, 8232]"
      by (simp add: joiner_padded_def)
  qed (simp_all add: isWhiteSpace_def units_def)
  have p: "requests (handleJoinPairing alice_props joiner_padded (start_world_of joiner_padded))
       = [PostJoinPairing (units ''AB12CD'') (Some 7)]"
    by (simp add: handleJoinPairing_requests padded ab12cd_normalized start_world_of_def
        alice_props_def) (simp add: units_def)
  have blank: "trim (pairingCodeInput joiner_blank) = []"
  proof (rule trim_unique)
    show "pairingCodeInput joiner_blank = [160, 12288, 32] @ [] @ []"
      by (simp add: joiner_blank_def)
  qed (simp_all add: isWhiteSpace_def)
  have b: "requests (handleJoinPairing alice_props joiner_blank (start_world_of joiner_blank)) = []"
    by (simp add: handleJoinPairing_requests blank start_world_of_def)
  have accented: "trim (pairingCodeInput joiner_accented) = [233, 98, 223]"
  proof (rule trim_unique)
    show "pairingCodeInput joiner_accented = [160] @ [233, 98, 223] @ []"
      by (simp add: joiner_accented_def)
  qed (simp_all add: isWhiteSpace_def)
  have u: "toUpperCase table_excerpt [233, 98, 223] = [201, 66, 83, 83]"
    by (simp add: toUpperCase_def upperMapping_def isHighSurrogate_def isLowSurrogate_def
        codeUnitsOf_def upperAscii_def table_excerpt_def)
  have c: "requests (handleJoinPairing carol_props joiner_accented (start_world_of joiner_accented))
       = [PostJoinPairing [201, 66, 83, 83] (Some 7)]"
    by (simp add: handleJoinPairing_requests accented u start_world_of_def carol_props_def)
  show ?thesis
    using i t p b c by simp
qed

text \<open>
  Claim C6: while a start request is pending no further invocation of the start
  operation sends a request, so that two start calls are never pending together.  The
  code sets up the guard for it (\<open>isStartingAttempt\<close> is set with the request and tested by
  \<open>handleStartAttempt\<close> and by the starting effect) but does not achieve it.  In the run
  \<open>connect_error_run\<close> the first render of the sender's page sends the start request and
  sets the flag; a connection error of the socket then clears the flag while the
  request is still pending, and the starting effect of the next render sends a second
  start request for the same template and role.
\<close>

theorem connect_error_restarts_pending_start:
  "requests (start_run alice_props (start_world_of sender_ready) (take 2 connect_error_run))
     = [PostStart (Some 7) (Some Sender)]
   \<and> isStartingAttempt (state (start_run alice_props (start_world_of sender_ready)
         (take 2 connect_error_run)))
   \<and> requests (start_run alice_props (start_world_of sender_ready) connect_error_run)
     = [PostStart (Some 7) (Some Sender), PostStart (Some 7) (Some Sender)]"
  by (simp add: start_eval_defs connect_error_run_def)

text \<open>
  Claim C7.  A \<open>pairing_failed\<close> event received by the joiner's listener (registered for
  a receiver with a connected socket while \<open>isJoiningPairing\<close> holds) leaves
  \<open>isJoiningPairing\<close> false and \<open>pairingError\<close> set to a non-empty message.  The code
  input is enabled again, the button shows no spinner, and the button is disabled only
  if the typed code is blank.
\<close>

theorem pairing_failed_resets_joiner:
  assumes "receiverListening sock conn sc"
  shows "\<not> isJoiningPairing (state (receive_event sock conn sc (Pairing_failed message) w))
    \<and> (\<exists>m. pairingError (state (receive_event sock conn sc (Pairing_failed message) w))
             = Some m \<and> m \<noteq> [])
    \<and> \<not> codeInputDisabled (state (receive_event sock conn sc (Pairing_failed message) w))
    \<and> \<not> joinButtonSpinner (state (receive_event sock conn sc (Pairing_failed message) w))
    \<and> joinButtonDisabled conn
         (state (receive_event sock conn sc (Pairing_failed message) w))
        = (trim (pairingCodeInput (state w)) = [])"
  using assms
  by (simp add: receive_event_def receiverListening_def codeInputDisabled_def joinButtonSpinner_def
      joinButtonDisabled_def Let_def or_default_nonempty MSG_PAIRING_FAILED_nonempty)

theorem pairing_failed_resets_joiner_witness:
  "receiverListening True True joiner_waiting
   \<and> isJoiningPairing (state (start_world_of joiner_waiting))
   \<and> \<not> isJoiningPairing (state (receive_event True True joiner_waiting (Pairing_failed None)
         (start_world_of joiner_waiting)))
   \<and> pairingError (state (receive_event True True joiner_waiting (Pairing_failed None)
         (start_world_of joiner_waiting))) = Some MSG_PAIRING_FAILED
   \<and> \<not> joinButtonDisabled True (state (receive_event True True joiner_waiting (Pairing_failed None)
         (start_world_of joiner_waiting)))"
proof -
  have l: "receiverListening True True joiner_waiting"
    by (simp add: receiverListening_def joiner_waiting_def joiner_typed_def initial_start_state_def)
  have t: "trim (pairingCodeInput (state (start_world_of joiner_waiting))) \<noteq> []"
    by (simp add: start_world_of_def joiner_waiting_def joiner_typed_def trim_def trimStart_def
        trimEnd_def isWhiteSpace_def units_def)
  have e: "pairingError (state (receive_event True True joiner_waiting (Pairing_failed None)
         (start_world_of joiner_waiting))) = Some MSG_PAIRING_FAILED"
    using l by (simp add: receive_event_def or_default_def)
  show ?thesis
    using pairing_failed_resets_joiner [OF l, of None "start_world_of joiner_waiting"] l t e
    by (simp add: start_world_of_def joiner_waiting_def)
qed

text \<open>
  Claim C4, as stated: the joiner enters the attempt page only on the \<open>start_exam\<close>
  event.  It does not hold: with the response of the join request alone, and no event
  received, the joiner is already sent to the page of attempt 5.
\<close>

theorem joiner_enters_on_http_response:
  "navs (handleJoinPairing_settled join_ok
      (handleJoinPairing alice_props joiner_typed (start_world_of joiner_typed)))
     = [Push (QuizAttempt 5)]"
  by (simp add: handleJoinPairing_settled_def handleJoinPairing_def join_ok_def joinPairing_result_def
      api_result_def start_world_of_def joiner_typed_def initial_start_state_def
      trim_def trimStart_def trimEnd_def isWhiteSpace_def units_def)

text \<open>
  Claim C4, amended.  The joiner is sent to \<open>/quiz/attempt/n\<close> as soon as the response
  of the join request carries the attempt id \<open>n\<close> (not zero), and also by a
  \<open>start_exam\<close> event with such an id received while its listeners are registered.
  Sending the request, a \<open>pairing_success\<close> event and a \<open>pairing_failed\<close> event do not
  navigate.
\<close>

theorem joiner_navigation:
  "(resp_attemptId response = Some n \<and> n \<noteq> 0 \<longrightarrow>
      navs (handleJoinPairing_settled (Http_ok (Some response)) w) = navs w @ [Push (QuizAttempt n)])
   \<and> (receiverListening sock conn sc \<and> n \<noteq> 0 \<longrightarrow>
      navs (receive_event sock conn sc (Start_exam (Some n)) w)
        = navs w @ [Push (QuizAttempt n)])
   \<and> navs (receive_event sock conn sc (Pairing_success u) w) = navs w
   \<and> navs (receive_event sock conn sc (Pairing_failed m) w) = navs w
   \<and> navs (handleJoinPairing p sc w) = navs w"
  by (simp add: handleJoinPairing_settled_def joinPairing_result_def api_result_def
      receive_event_def handleJoinPairing_def Let_def)

theorem joiner_navigation_witness:
  "navs (handleJoinPairing_settled join_ok (start_world_of joiner_waiting)) = [Push (QuizAttempt 5)]
   \<and> receiverListening True True joiner_waiting
   \<and> navs (receive_event True True joiner_waiting (Start_exam (Some 5)) (start_world_of joiner_waiting))
       = [Push (QuizAttempt 5)]"
proof -
  have l: "receiverListening True True joiner_waiting"
    by (simp add: receiverListening_def joiner_waiting_def joiner_typed_def initial_start_state_def)
  show ?thesis
    using joiner_navigation [of "\<lparr>resp_attemptId = Some 5, resp_pairingCode = None, resp_message = None\<rparr>"
        5 "start_world_of joiner_waiting" True True joiner_waiting] l
    by (simp add: join_ok_def start_world_of_def)
qed

subsection \<open>The attempt page\<close>

text \<open>
  Claim C1, as stated: every attempt fetched with the status \<open>completed\<close> or
  \<open>timed_out\<close> is redirected to its result page.  It does not hold: the ownership test
  comes before the status test, so a finished attempt whose \<open>userId\<close> is another user's
  ends in the error state, and the router is not called.
\<close>

theorem foreign_finished_attempt_not_redirected:
  "data_status foreign_finished = Some ''completed''
   \<and> routed (loaded foreign_finished) = []
   \<and> error (pageState (loaded foreign_finished)) = Some MSG_NO_ACCESS"
  by (simp add: eval_defs example_defs MSG_NO_ACCESS_def)

text \<open>
  Claim C1, amended.  On a page with an attempt id and a user, when the fetch returns
  a body that passes the ownership test (no \<open>userId\<close>, a zero one, or the user's own)
  with the status \<open>completed\<close> or \<open>timed_out\<close>, or fails with a 409 whose body has one of
  these statuses, the page calls \<open>router.replace\<close> with \<open>/quiz/result/{attemptId}\<close> and
  changes nothing else: after the fetch the world is the one before it with the loading
  flag set, the request recorded and the redirect added, so no answers, questions, start
  time or timer are installed, and the page shows the loading view, not the answer form.
\<close>

theorem finished_attempt_redirects:
  assumes "page_attemptId w0 = Some a" and "page_user w0 = Some u"
  shows
    "((data_status d = Some ''completed'' \<or> data_status d = Some ''timed_out'')
        \<and> (data_userId d = None \<or> data_userId d = Some 0 \<or> data_userId d = Some (user_id u)) \<longrightarrow>
        fetchAttemptDetails_settled u (Http_ok (Some d)) (fetchAttemptDetails w0)
          = w0\<lparr>pageState := (pageState w0)\<lparr>isLoading := True, error := None\<rparr>,
                calls := calls w0 @ [GetActiveAttempt a],
                routed := routed w0 @ [Replace (QuizResult (Some a))]\<rparr>
        \<and> current_view (fetchAttemptDetails_settled u (Http_ok (Some d)) (fetchAttemptDetails w0))
            = LoadingView)
     \<and> (body_status e = Some ''completed'' \<or> body_status e = Some ''timed_out'' \<longrightarrow>
        fetchAttemptDetails_settled u (Http_error (Some \<lparr>http_status = 409, http_data = Some e\<rparr>))
            (fetchAttemptDetails w0)
          = w0\<lparr>pageState := (pageState w0)\<lparr>isLoading := True, error := None\<rparr>,
                calls := calls w0 @ [GetActiveAttempt a],
                routed := routed w0 @ [Replace (QuizResult (Some a))]\<rparr>
        \<and> current_view (fetchAttemptDetails_settled u
              (Http_error (Some \<lparr>http_status = 409, http_data = Some e\<rparr>)) (fetchAttemptDetails w0))
            = LoadingView)"
proof -
  let ?w1 = "fetchAttemptDetails w0"
  let ?after = "w0\<lparr>pageState := (pageState w0)\<lparr>isLoading := True, error := None\<rparr>,
                   calls := calls w0 @ [GetActiveAttempt a],
                   routed := routed w0 @ [Replace (QuizResult (Some a))]\<rparr>"
  have sent: "?w1 = w0\<lparr>pageState := (pageState w0)\<lparr>isLoading := True, error := None\<rparr>,
                       calls := calls w0 @ [GetActiveAttempt a]\<rparr>"
    using assms by (rule fetchAttemptDetails_sends)
  have redirect: "?w1\<lparr>routed := routed ?w1 @ [Replace (QuizResult (page_attemptId ?w1))]\<rparr> = ?after"
    using assms(1) by (simp add: sent)
  have view: "current_view ?after = LoadingView"
    by (rule loading_view) simp
  have body: "fetchAttemptDetails_settled u (Http_ok (Some d)) ?w1 = ?after"
    if "data_status d = Some ''completed'' \<or> data_status d = Some ''timed_out''"
      and "data_userId d = None \<or> data_userId d = Some 0 \<or> data_userId d = Some (user_id u)"
  proof -
    have "isFinished (data_status d)"
      using that(1) by (simp add: isFinished_def)
    then show ?thesis
      using fetch_settled_finished_body [OF _ that(2), of ?w1] redirect by simp
  qed
  have conflict:
    "fetchAttemptDetails_settled u (Http_error (Some \<lparr>http_status = 409, http_data = Some e\<rparr>)) ?w1
       = ?after"
    if "body_status e = Some ''completed'' \<or> body_status e = Some ''timed_out''"
  proof -
    have "isFinished (body_status e)"
      using that by (simp add: isFinished_def)
    then show ?thesis
      using fetch_settled_finished_conflict [of e u ?w1] redirect by simp
  qed
  show ?thesis
    using body conflict view by simp
qed

theorem finished_attempt_redirects_witness:
  "page_attemptId mounted = Some 9 \<and> page_user mounted = Some bob
   \<and> routed (loaded own_finished) = [Replace (QuizResult (Some 9))]
   \<and> answers (loaded own_finished) = []
   \<and> timeLeft (loaded own_finished) = None
   \<and> questions (pageState (loaded own_finished)) = []
   \<and> current_view (loaded own_finished) = LoadingView
   \<and> routed (fetchAttemptDetails_settled bob conflict_timed_out (fetchAttemptDetails mounted))
       = [Replace (QuizResult (Some 9))]
   \<and> current_view (fetchAttemptDetails_settled bob conflict_timed_out (fetchAttemptDetails mounted))
       = LoadingView"
proof -
  let ?after = "mounted\<lparr>pageState := (pageState mounted)\<lparr>isLoading := True, error := None\<rparr>,
                  calls := calls mounted @ [GetActiveAttempt 9],
                  routed := routed mounted @ [Replace (QuizResult (Some 9))]\<rparr>"
  have a: "page_attemptId mounted = Some 9" and b: "page_user mounted = Some bob"
    by (simp_all add: mounted_def initial_attempt_world_def)
  have s: "data_status own_finished = Some ''completed''"
      "data_userId own_finished = Some (user_id bob)"
    by (simp_all add: own_finished_def foreign_finished_def bob_def)
  have t: "body_status \<lparr>body_message = None, body_status = Some ''timed_out''\<rparr> = Some ''timed_out''"
    by simp
  note inst = finished_attempt_redirects [OF a b, of own_finished
      "\<lparr>body_message = None, body_status = Some ''timed_out''\<rparr>"]
  have body: "loaded own_finished = ?after" "current_view (loaded own_finished) = LoadingView"
    using inst s unfolding loaded_def by blast+
  have conflict:
    "fetchAttemptDetails_settled bob conflict_timed_out (fetchAttemptDetails mounted) = ?after"
    "current_view (fetchAttemptDetails_settled bob conflict_timed_out (fetchAttemptDetails mounted))
       = LoadingView"
    using inst t unfolding conflict_timed_out_def by blast+
  have m: "routed ?after = [Replace (QuizResult (Some 9))]" "answers ?after = []"
      "timeLeft ?after = None" "questions (pageState ?after) = []"
    by (simp_all add: mounted_def initial_attempt_world_def initial_pageState_def)
  have n: "routed (loaded own_finished) = [Replace (QuizResult (Some 9))]"
      "answers (loaded own_finished) = []" "timeLeft (loaded own_finished) = None"
      "questions (pageState (loaded own_finished)) = []"
      "routed (fetchAttemptDetails_settled bob conflict_timed_out (fetchAttemptDetails mounted))
         = [Replace (QuizResult (Some 9))]"
    using m by (simp_all only: body(1) conflict(1))
  show ?thesis
    using a b n body(2) conflict(2) by blast
qed

text \<open>
  Claim C2: at most one call of the submit endpoint in a run of a non-sender, also when
  the countdown and a click on the submit button race.  The code does not achieve it.
  The guard of \<open>handleSubmit\<close> reads \<open>isSubmitting\<close> in the render the callback closed
  over, and the timeout that the countdown scheduled keeps the callback of the render
  before the click.  In the run \<open>race\<close> the click submits, React renders the state with
  \<open>isSubmitting\<close> set, and the pending timeout submits a second time.
\<close>

theorem race_submits_twice:
  "submitCount (run (loaded running_attempt) race) = 2"
  by (simp add: eval_defs example_defs race_def)

text \<open>
  Claim C3, as stated: for every start time and every positive limit the remaining time
  on load is \<open>max(0, L - floor((now - T0)/1000))\<close>, and afterwards it only changes by the
  ticks and is not derived again.  It does not hold.  An attempt with the status
  \<open>waiting_pair\<close> (start time 0, limit 60) gets no remaining time at all.  And in the run
  \<open>typing\<close> of a running attempt the remaining time is 60 after the first render and 59
  after the user has typed an answer, before the interval has ticked once: the effect
  has run again and derived it from the start time and the clock.
\<close>

theorem countdown_rederived:
  "data_startTime waiting_attempt = Some 0 \<and> data_timeLimit waiting_attempt = Some 60
   \<and> timeLeft (run (loaded waiting_attempt) [Commit 1000 :: unit attempt_event]) = None
   \<and> timeLeft (run (loaded running_attempt) (take 1 typing)) = Some 60
   \<and> timeLeft (run (loaded running_attempt) typing) = Some 59"
  by (simp add: eval_defs example_defs typing_def)

text \<open>
  Claim C3, amended.  A run of the timer effect with a start time \<open>T0\<close>, a limit
  \<open>L > 0\<close> and the status \<open>inprogress\<close> or \<open>started\<close> sets the remaining time to
  \<open>max(0, L - floor((now - T0)/1000))\<close> by the client's clock; without a start time, with
  \<open>L \<le> 0\<close> or with another status it sets it to \<open>null\<close>.  A tick of the live interval
  replaces a remaining time \<open>n\<close> by \<open>max(0, n - 1)\<close> and reads no clock.  A commit leaves
  the remaining time alone when the dependencies of the effect are unchanged, and
  otherwise runs the effect again, which derives the remaining time anew from \<open>T0\<close> and
  the client's clock.
\<close>

theorem countdown_derivation:
  "(startTime ps = Some start \<and> 0 < timeLimitSeconds ps
      \<and> (status ps = ''inprogress'' \<or> status ps = ''started'') \<longrightarrow>
      timeLeft (timerEffect ps c now w)
        = Some (max 0 (timeLimitSeconds ps - (now - getTime start) div 1000)))
   \<and> (startTime ps = None \<or> timeLimitSeconds ps \<le> 0
      \<or> (status ps \<noteq> ''inprogress'' \<and> status ps \<noteq> ''started'') \<longrightarrow>
      timeLeft (timerEffect ps c now w) = None)
   \<and> timeLeft (timerTick w)
       = (case interval w of
            None \<Rightarrow> timeLeft w
          | Some live \<Rightarrow> map_option (\<lambda>prev. max 0 (prev - 1)) (timeLeft w))
   \<and> timeLeft (commit now w)
       = (if effect_deps w = Some (current_deps w) then timeLeft w
          else timeLeft (timerEffect (pageState w) (rendered (commit now w)) now w))"
proof -
  have running: "timeLeft (timerEffect ps c now w)
        = Some (max 0 (timeLimitSeconds ps - (now - getTime start) div 1000))"
    if "startTime ps = Some start" "0 < timeLimitSeconds ps"
      "status ps = ''inprogress'' \<or> status ps = ''started''"
    using that by (auto simp: timerEffect_timeLeft)
  have idle: "timeLeft (timerEffect ps c now w) = None"
    if "startTime ps = None \<or> timeLimitSeconds ps \<le> 0
        \<or> (status ps \<noteq> ''inprogress'' \<and> status ps \<noteq> ''started'')"
    using that by (auto simp: timerEffect_timeLeft split: option.splits)
  show ?thesis
    using running idle timerTick_timeLeft [of w] commit_timeLeft [of now w] by blast
qed

theorem countdown_derivation_witness:
  "startTime (pageState (loaded running_attempt)) = Some \<lparr>date_ref = 2, getTime = 0\<rparr>
   \<and> 0 < timeLimitSeconds (pageState (loaded running_attempt))
   \<and> status (pageState (loaded running_attempt)) = ''inprogress''
   \<and> timeLeft (timerEffect (pageState (loaded running_attempt)) (rendered mounted) 12345
        (loaded running_attempt)) = Some 48
   \<and> status (pageState (loaded waiting_attempt)) \<noteq> ''inprogress''
   \<and> status (pageState (loaded waiting_attempt)) \<noteq> ''started''
   \<and> timeLeft (timerEffect (pageState (loaded waiting_attempt)) (rendered mounted) 12345
        (loaded waiting_attempt)) = None"
proof -
  have p: "startTime (pageState (loaded running_attempt)) = Some \<lparr>date_ref = 2, getTime = 0\<rparr>"
      "timeLimitSeconds (pageState (loaded running_attempt)) = 60"
      "status (pageState (loaded running_attempt)) = ''inprogress''"
      "status (pageState (loaded waiting_attempt)) = ''waiting_pair''"
    by (simp_all add: eval_defs example_defs)
  have r: "timeLeft (timerEffect (pageState (loaded running_attempt)) (rendered mounted) 12345
        (loaded running_attempt)) = Some (max 0 (60 - (12345 - 0) div 1000))"
    using countdown_derivation [of "pageState (loaded running_attempt)" "\<lparr>date_ref = 2, getTime = 0\<rparr>"
        "rendered mounted" 12345 "loaded running_attempt"] p(1-3)
    by simp
  have q: "timeLeft (timerEffect (pageState (loaded waiting_attempt)) (rendered mounted) 12345
        (loaded waiting_attempt)) = None"
    using countdown_derivation [of "pageState (loaded waiting_attempt)" "\<lparr>date_ref = 2, getTime = 0\<rparr>"
        "rendered mounted" 12345 "loaded waiting_attempt"] p(4)
    by simp
  show ?thesis
    using p r q by simp
qed

text \<open>
  Claim C8.  For a sender with a connected socket the commit registers the
  \<open>exam_completed\<close> listener.  When the event arrives with its score the listener
  schedules the redirect, and the redirect calls \<open>router.replace\<close> with
  \<open>/quiz/result/{attemptId}\<close>; no request is sent on the way.  \<open>handleSubmit\<close> of a
  sender's render returns at once, whatever the world, and in no run of a rendered
  sender's page (without a new fetch settling) is the submit endpoint called.
\<close>

theorem sender_redirected_by_exam_completed:
  "(AttemptPageState.role (pageState w) = Some Sender \<and> hasSocket w \<and> isConnected w \<longrightarrow>
      listening (commit now w))
   \<and> (listening w \<longrightarrow>
        timeouts (receive_exam_completed score w) = timeouts w @ [ResultRedirect]
        \<and> calls (receive_exam_completed score w) = calls w
        \<and> routed (fire_timeout (length (timeouts w)) (receive_exam_completed score w))
            = routed w @ [Replace (QuizResult (page_attemptId w))]
        \<and> calls (fire_timeout (length (timeouts w)) (receive_exam_completed score w)) = calls w)
   \<and> (AttemptPageState.role (c_pageState c) = Some Sender \<longrightarrow> handleSubmit c timedOut w = w)
   \<and> (sender_inv w \<and> list_all (\<lambda>ev. \<not> isFetchSettled ev) evs \<longrightarrow>
        submitCount (run w evs) = submitCount w)"
proof -
  have "listening (commit now w)"
    if "AttemptPageState.role (pageState w) = Some Sender \<and> hasSocket w \<and> isConnected w"
    using that by (simp add: commit_def timerEffect_def Let_def split: option.splits)
  moreover have "timeouts (receive_exam_completed score w) = timeouts w @ [ResultRedirect]
        \<and> calls (receive_exam_completed score w) = calls w
        \<and> routed (fire_timeout (length (timeouts w)) (receive_exam_completed score w))
            = routed w @ [Replace (QuizResult (page_attemptId w))]
        \<and> calls (fire_timeout (length (timeouts w)) (receive_exam_completed score w)) = calls w"
    if "listening w"
    using that
    by (simp add: receive_exam_completed_def on_exam_completed_def fire_timeout_def nth_append)
  moreover have "handleSubmit c timedOut w = w"
    if "AttemptPageState.role (c_pageState c) = Some Sender"
    using that by (rule sender_inv_handleSubmit)
  moreover have "submitCount (run w evs) = submitCount w"
    if "sender_inv w \<and> list_all (\<lambda>ev. \<not> isFetchSettled ev) evs"
    using that sender_never_submits [of w evs] by simp
  ultimately show ?thesis
    by blast
qed

theorem sender_redirected_by_exam_completed_witness:
  "AttemptPageState.role (pageState (loaded sender_attempt)) = Some Sender
   \<and> hasSocket (loaded sender_attempt) \<and> isConnected (loaded sender_attempt)
   \<and> listening (commit 1000 (loaded sender_attempt))
   \<and> routed (run (loaded sender_attempt) sender_run) = [Replace (QuizResult (Some 9))]
   \<and> handleSubmit (rendered (commit 1000 (loaded sender_attempt))) False
        (commit 1000 (loaded sender_attempt)) = commit 1000 (loaded sender_attempt)
   \<and> sender_inv (commit 1000 (loaded sender_attempt))
   \<and> submitCount (run (commit 1000 (loaded sender_attempt))
        [ExamCompleted ''87'', Fire 0, ClickSubmit, Tick :: unit attempt_event]) = 0"
proof -
  let ?w = "loaded sender_attempt"
  let ?evs = "[ExamCompleted ''87'', Fire 0, ClickSubmit, Tick :: unit attempt_event]"
  have r: "AttemptPageState.role (pageState ?w) = Some Sender" "hasSocket ?w" "isConnected ?w"
    by (simp_all add: eval_defs example_defs)
  have c: "AttemptPageState.role (c_pageState (rendered (commit 1000 ?w))) = Some Sender"
    by (simp add: eval_defs example_defs)
  have i: "sender_inv (commit 1000 ?w)" "submitCount (commit 1000 ?w) = 0"
    by (simp_all add: sender_inv_def eval_defs example_defs)
  have n: "list_all (\<lambda>ev. \<not> isFetchSettled ev) ?evs"
    by simp
  have l: "listening (commit 1000 ?w)"
    using sender_redirected_by_exam_completed [of ?w 1000] r by blast
  have h: "handleSubmit (rendered (commit 1000 ?w)) False (commit 1000 ?w) = commit 1000 ?w"
    using sender_redirected_by_exam_completed
      [where c = "rendered (commit 1000 ?w)" and w = "commit 1000 ?w" and timedOut = False] c
    by blast
  have s: "submitCount (run (commit 1000 ?w) ?evs) = submitCount (commit 1000 ?w)"
    using sender_redirected_by_exam_completed [where w = "commit 1000 ?w" and evs = ?evs] i(1) n
    by blast
  have e: "routed (run ?w sender_run) = [Replace (QuizResult (Some 9))]"
    by (simp add: eval_defs example_defs sender_run_def)
  show ?thesis
    using r l h e i s by simp
qed

text \<open>
  Claim C9: a failed submit shows an error, clears \<open>isSubmitting\<close> so that submitting is
  possible again, and keeps the answers.  The code does the first and the last and
  clears the flag, but submitting is not possible again.  In the run \<open>failed_submit\<close> the
  user types an answer and clicks the submit button, and the request fails: the message
  is stored, the flag is cleared and the answer is still there, but the message together
  with the cleared flag makes the page return the error view of a failed load, which has
  no submit button, so a further click finds nothing to act on.  The alert inside the
  form, which the page's own comment announces for errors of the submit, needs
  \<open>isSubmitting\<close> to hold and is never shown.  The one way back offered is to load the
  attempt again (\<open>retry_load\<close>), which replaces the answers by blank ones.
\<close>

theorem failed_submit_hides_form:
  "submitCount (run (loaded running_attempt) failed_submit) = 1
   \<and> \<not> isSubmitting (pageState (run (loaded running_attempt) failed_submit))
   \<and> error (pageState (run (loaded running_attempt) failed_submit)) = Some MSG_SUBMIT_API_FAILED
   \<and> map (answerText \<circ> snd) (answers (run (loaded running_attempt) failed_submit)) = [Some ''42'']
   \<and> current_view (run (loaded running_attempt) failed_submit) = ErrorView
   \<and> run (loaded running_attempt) (failed_submit @ [ClickSubmit])
       = run (loaded running_attempt) failed_submit
   \<and> map (answerText \<circ> snd) (answers (run (loaded running_attempt) (failed_submit @ retry_load)))
       = [Some []]"
  by (simp add: eval_defs example_defs failed_submit_def retry_load_def MSG_SUBMIT_API_FAILED_def)

end
